theory Spec2Isabelle
  imports Complex_Main "HOL-Library.Word"
begin

unbundle bit_operations_syntax

section \<open>RTCM 3 decoder of BNC: data model\<close>

text \<open>
  The development follows \<^verbatim>\<open>src/c/BNC/RTCM3Decoder.cpp\<close>. Physical values that the
  source keeps in \<^verbatim>\<open>double\<close> variables are exact rationals here: every scale factor
  of the source is a decimal constant or a power of two.
\<close>

type_synonym byte = "8 word"

datatype error =
    ReadPastEnd            \<comment> \<open>the bit cursor ran beyond the payload\<close>
  | OutOfBounds int        \<comment> \<open>a write to \<^verbatim>\<open>GLOFreq\<close> outside indices 0..63\<close>
  | NegativeShift          \<comment> \<open>a mask search ran below bit 0\<close>
  | ShiftCount nat         \<comment> \<open>a 64-bit mask was shifted by 64 or more\<close>

text \<open>Sequencing of fallible steps: the first error ends the computation.\<close>

definition bindE :: "error + 'a \<Rightarrow> ('a \<Rightarrow> error + 'b) \<Rightarrow> error + 'b" where
  "bindE m f = (case m of Inl e \<Rightarrow> Inl e | Inr a \<Rightarrow> f a)"

record t_prn =
  system :: char
  number :: int

text \<open>
  \<^verbatim>\<open>t_frqObs\<close> and \<^verbatim>\<open>t_satObs\<close> are declared outside the given sources; the fields
  are those the decoder assigns. A fresh \<^verbatim>\<open>t_frqObs\<close> has every validity flag false.
\<close>

record t_frqObs =
  rnxType2ch :: string
  code :: rat
  codeValid :: bool
  phase :: rat
  phaseValid :: bool
  doppler :: rat
  dopplerValid :: bool
  snr :: rat
  snrValid :: bool
  lockTime :: rat
  lockTimeValid :: bool
  lockTimeIndicator :: nat

definition new_frqObs :: t_frqObs where
  "new_frqObs = \<lparr> rnxType2ch = [], code = 0, codeValid = False, phase = 0, phaseValid = False,
     doppler = 0, dopplerValid = False, snr = 0, snrValid = False,
     lockTime = 0, lockTimeValid = False, lockTimeIndicator = 0 \<rparr>"

record t_satObs =
  prn :: t_prn
  time :: int
  type :: nat
  obs :: "t_frqObs list"

text \<open>
  An ephemeris record: the satellite and the decoded fields by name, in the order the
  decoder assigns them.
\<close>

record t_eph =
  eph_prn :: t_prn
  navType :: string
  eph_fields :: "(string \<times> rat) list"

text \<open>The Qt signals of the decoder; \<^verbatim>\<open>newMessage\<close> carries the block number of the
  "partial data" diagnostic.\<close>

datatype signal =
    newMessage nat
  | newGPSEph t_eph
  | newGlonassEph t_eph
  | newSBASEph t_eph
  | newGalileoEph t_eph
  | newBDSEph t_eph

record t_antInfo =
  descriptor :: "byte list"
  serialnumber :: "byte list"

record t_recInfo =
  rec_descriptor :: "byte list"
  rec_firmware :: "byte list"
  rec_serialnumber :: "byte list"

record t_antRefPoint =
  xx :: rat
  yy :: rat
  zz :: rat
  height :: rat
  height_f :: bool
  message :: nat

text \<open>
  The decoder object. \<^verbatim>\<open>_Message\<close> is a 2048-byte array of which the first
  \<^verbatim>\<open>_MessageSize\<close> bytes are in use: \<open>Message\<close> holds those bytes (so
  \<^verbatim>\<open>_MessageSize\<close> is its length) and \<open>Stale\<close> holds the rest of the array, which keeps
  whatever was written there before. \<open>CurrentTime\<close> is \<open>None\<close> when
  \<^verbatim>\<open>_CurrentTime.valid()\<close> is false. \<open>GLOFreq\<close> is the static 64-entry table,
  \<open>emitted\<close> the signals sent so far, oldest first.
\<close>

record decoder =
  Message :: "byte list"
  Stale :: "byte list"
  NeedBytes :: nat
  SkipBytes :: nat
  BlockSize :: nat
  CurrentTime :: "int option"
  CurrentObsList :: "t_satObs list"
  obsList :: "t_satObs list list"
  GLOFreq :: "int list"
  typeList :: "nat list"
  antType :: "t_antInfo list"
  recType :: "t_recInfo list"
  antList :: "t_antRefPoint list"
  emitted :: "signal list"

text \<open>
  What the decoder takes from its collaborators, none of them in the given sources:
  the \<^verbatim>\<open>bncTime\<close> setters \<^verbatim>\<open>set(msec)\<close>, \<^verbatim>\<open>setBDS(msec)\<close>, \<^verbatim>\<open>setTk(msec)\<close>,
  \<^verbatim>\<open>setTOD(msec)\<close>, \<^verbatim>\<open>set(week, sec)\<close> and \<^verbatim>\<open>setBDS(week, sec)\<close> (the instant is an
  integer; the one-argument setters consult the wall clock), \<^verbatim>\<open>bncTime::gpsw\<close> after
  \<^verbatim>\<open>set(msec)\<close>, \<^verbatim>\<open>bncTime::gpssec\<close>, \<^verbatim>\<open>lti2sec\<close>, and the verdict of the SSR
  sub-decoder on a block.
\<close>

record env =
  time_set :: "nat \<Rightarrow> int"
  time_setBDS :: "nat \<Rightarrow> int"
  time_setTk :: "nat \<Rightarrow> int"
  time_setTOD :: "nat \<Rightarrow> int"
  time_set_week :: "nat \<Rightarrow> nat \<Rightarrow> int"
  time_setBDS_week :: "nat \<Rightarrow> nat \<Rightarrow> int"
  gpsw :: "nat \<Rightarrow> int"
  gpssec :: "int \<Rightarrow> rat"
  lti2sec :: "nat \<Rightarrow> nat \<Rightarrow> rat"
  coDecode :: "byte list \<Rightarrow> bool"

section \<open>Bit reader\<close>

text \<open>
  Modelled from the spec: the macros of \<^verbatim>\<open>bits.h\<close> (GETBITS, GETBITS64, GETBITSSIGN,
  SKIPBITS, GETFLOAT, GETFLOATSIGN, GETFLOATSIGNM) are not in the given sources. The
  spec's bit reader is a cursor over the payload, most significant bit first; reading
  past the end is a hard failure. The cursor is the list of bits still unread.
\<close>

type_synonym reader = "bool list"

definition bits_of_byte :: "byte \<Rightarrow> bool list" where
  "bits_of_byte b = map (bit b) [7, 6, 5, 4, 3, 2, 1, 0]"

definition bits_of_bytes :: "byte list \<Rightarrow> bool list" where
  "bits_of_bytes bs = concat (map bits_of_byte bs)"

definition bits_to_nat :: "bool list \<Rightarrow> nat" where
  "bits_to_nat bs = foldl (\<lambda>acc b. 2 * acc + (if b then 1 else 0)) 0 bs"

text \<open>The decoders start with \<^verbatim>\<open>data += 3; size -= 6\<close>: the cursor covers the
  \<open>size - 6\<close> payload bytes behind the 3-byte header. A size below 6 leaves nothing
  to read.\<close>

definition payload_reader :: "byte list \<Rightarrow> nat \<Rightarrow> reader" where
  "payload_reader data sz = bits_of_bytes (take (sz - 6) (drop 3 data))"

definition GETBITS :: "nat \<Rightarrow> reader \<Rightarrow> error + (nat \<times> reader)" where
  "GETBITS n r = (if n \<le> length r then Inr (bits_to_nat (take n r), drop n r)
                  else Inl ReadPastEnd)"

definition SKIPBITS :: "nat \<Rightarrow> reader \<Rightarrow> error + reader" where
  "SKIPBITS n r = (if n \<le> length r then Inr (drop n r) else Inl ReadPastEnd)"

definition signed_of :: "nat \<Rightarrow> nat \<Rightarrow> int" where
  "signed_of n v = (if n > 0 \<and> v \<ge> 2 ^ (n - 1) then int v - 2 ^ n else int v)"

definition GETBITSSIGN :: "nat \<Rightarrow> reader \<Rightarrow> error + (int \<times> reader)" where
  "GETBITSSIGN n r = bindE (GETBITS n r) (\<lambda>(v, r'). Inr (signed_of n v, r'))"

text \<open>Sign and magnitude: the leading bit is the sign, the other \<open>n - 1\<close> bits the
  magnitude.\<close>

definition signmag_of :: "nat \<Rightarrow> nat \<Rightarrow> int" where
  "signmag_of n v = (if n > 0 \<and> v \<ge> 2 ^ (n - 1) then - (int v - 2 ^ (n - 1)) else int v)"

definition GETBITSSIGNM :: "nat \<Rightarrow> reader \<Rightarrow> error + (int \<times> reader)" where
  "GETBITSSIGNM n r = bindE (GETBITS n r) (\<lambda>(v, r'). Inr (signmag_of n v, r'))"

text \<open>
  The decoders hand the macros the variables \<^verbatim>\<open>data\<close>, \<^verbatim>\<open>size\<close>, \<^verbatim>\<open>numbits\<close> and
  \<^verbatim>\<open>bitfield\<close>. The cursor is lazy: it loads whole bytes as bits are asked for, and
  \<^verbatim>\<open>size\<close> counts the payload bytes not loaded yet. With \<open>r\<close> the unread bits, that
  count is \<open>length r div 8\<close>. One decoder (Galileo) tests \<^verbatim>\<open>size\<close> after a read.
\<close>

definition unloaded_bytes :: "reader \<Rightarrow> nat" where
  "unloaded_bytes r = length r div 8"

definition GETFLOAT :: "nat \<Rightarrow> rat \<Rightarrow> reader \<Rightarrow> error + (rat \<times> reader)" where
  "GETFLOAT n scale r = bindE (GETBITS n r) (\<lambda>(v, r'). Inr (of_nat v * scale, r'))"

definition GETFLOATSIGN :: "nat \<Rightarrow> rat \<Rightarrow> reader \<Rightarrow> error + (rat \<times> reader)" where
  "GETFLOATSIGN n scale r = bindE (GETBITSSIGN n r) (\<lambda>(v, r'). Inr (of_int v * scale, r'))"

definition GETFLOATSIGNM :: "nat \<Rightarrow> rat \<Rightarrow> reader \<Rightarrow> error + (rat \<times> reader)" where
  "GETFLOATSIGNM n scale r = bindE (GETBITSSIGNM n r) (\<lambda>(v, r'). Inr (of_int v * scale, r'))"

section \<open>Constants of gnss.h\<close>

definition LIGHTSPEED :: rat where "LIGHTSPEED = 299792458"
definition GPS_WAVELENGTH_L1 :: rat where "GPS_WAVELENGTH_L1 = LIGHTSPEED / 1575420000"
definition GPS_WAVELENGTH_L2 :: rat where "GPS_WAVELENGTH_L2 = LIGHTSPEED / 1227600000"
definition GPS_WAVELENGTH_L5 :: rat where "GPS_WAVELENGTH_L5 = LIGHTSPEED / 1176450000"

definition GLO_FREQU_L1 :: "int \<Rightarrow> rat" where
  "GLO_FREQU_L1 a = 1602000000 + of_int a * 562500"
definition GLO_FREQU_L2 :: "int \<Rightarrow> rat" where
  "GLO_FREQU_L2 a = 1246000000 + of_int a * 437500"
definition GLO_WAVELENGTH_L1 :: "int \<Rightarrow> rat" where
  "GLO_WAVELENGTH_L1 a = LIGHTSPEED / GLO_FREQU_L1 a"
definition GLO_WAVELENGTH_L2 :: "int \<Rightarrow> rat" where
  "GLO_WAVELENGTH_L2 a = LIGHTSPEED / GLO_FREQU_L2 a"
definition GLO_WAVELENGTH_L1a :: rat where "GLO_WAVELENGTH_L1a = LIGHTSPEED / 1600995000"
definition GLO_WAVELENGTH_L2a :: rat where "GLO_WAVELENGTH_L2a = LIGHTSPEED / 1248060000"
definition GLO_WAVELENGTH_L3 :: rat where "GLO_WAVELENGTH_L3 = LIGHTSPEED / 1202025000"

section \<open>Epoch accumulator\<close>

text \<open>
  The three observation decoders repeat the same two blocks. At the head of a frame:
  \<^verbatim>\<open>if (_CurrentTime.valid() && CurrentObsTime != _CurrentTime) { decoded = true;
  _obsList.append(_CurrentObsList); _CurrentObsList.clear(); } _CurrentTime = CurrentObsTime;\<close>
  and at its end, when the sync flag is clear:
  \<^verbatim>\<open>decoded = true; _obsList.append(_CurrentObsList); _CurrentTime.reset();
  _CurrentObsList.clear();\<close>
  \<^verbatim>\<open>_obsList\<close> is declared outside the given sources; following the spec it is a queue of
  lists, one list for each flush.
\<close>

definition epoch_begin :: "int \<Rightarrow> decoder \<Rightarrow> bool \<times> decoder" where
  "epoch_begin CurrentObsTime st =
     (let (decoded, st1) =
        (if CurrentTime st \<noteq> None \<and> Some CurrentObsTime \<noteq> CurrentTime st
         then (True, st\<lparr>obsList := obsList st @ [CurrentObsList st], CurrentObsList := []\<rparr>)
         else (False, st))
      in (decoded, st1\<lparr>CurrentTime := Some CurrentObsTime\<rparr>))"

definition epoch_end :: "nat \<Rightarrow> bool \<Rightarrow> decoder \<Rightarrow> bool \<times> decoder" where
  "epoch_end syncf decoded st =
     (if syncf = 0
      then (True, st\<lparr>obsList := obsList st @ [CurrentObsList st],
                      CurrentTime := None, CurrentObsList := []\<rparr>)
      else (decoded, st))"

section \<open>Legacy GPS observations (1001-1004)\<close>

text \<open>The L1 block of one satellite. Returns the observation with \<open>l1range\<close> and
  \<open>amb\<close>, which the L2 block uses.\<close>

definition DecodeRTCM3GPS_L1 ::
  "env \<Rightarrow> nat \<Rightarrow> reader \<Rightarrow> error + ((t_frqObs \<times> nat \<times> nat) \<times> reader)" where
  "DecodeRTCM3GPS_L1 env ty r0 =
     bindE (GETBITS 1 r0) (\<lambda>(cd, r).
     let f0 = new_frqObs\<lparr>rnxType2ch := (if cd \<noteq> 0 then ''1W'' else ''1C'')\<rparr> in
     bindE (GETBITS 24 r) (\<lambda>(l1range, r).
     bindE (GETBITSSIGN 20 r) (\<lambda>(i, r).
     let f1 = (if (i AND (push_bit 20 1 - 1)) \<noteq> 0x80000
               then f0\<lparr>code := of_nat l1range * 0.02,
                       phase := (of_nat l1range * 0.02 + of_int i * 0.0005) / GPS_WAVELENGTH_L1,
                       codeValid := True, phaseValid := True\<rparr>
               else f0) in
     bindE (GETBITS 7 r) (\<lambda>(lti, r).
     let f2 = f1\<lparr>lockTimeIndicator := lti, lockTime := lti2sec env ty lti\<rparr>;
         f3 = f2\<lparr>lockTimeValid := (lockTime f2 \<ge> 0 \<and> phaseValid f2)\<rparr> in
     if ty = 1002 \<or> ty = 1004 then
       bindE (GETBITS 8 r) (\<lambda>(amb, r).
       let f4 = (if amb \<noteq> 0
                 then f3\<lparr>code := code f3 + of_nat amb * 299792.458,
                         phase := phase f3 + (of_nat amb * 299792.458) / GPS_WAVELENGTH_L1\<rparr>
                 else f3) in
       bindE (GETBITS 8 r) (\<lambda>(i, r).
       let f5 = (if i \<noteq> 0 then f4\<lparr>snr := of_nat i * 0.25, snrValid := True\<rparr> else f4) in
       Inr ((f5, l1range, amb), r)))
     else Inr ((f3, l1range, 0), r)))))"

definition DecodeRTCM3GPS_L2 ::
  "env \<Rightarrow> nat \<Rightarrow> nat \<Rightarrow> nat \<Rightarrow> reader \<Rightarrow> error + (t_frqObs \<times> reader)" where
  "DecodeRTCM3GPS_L2 env ty l1range amb r0 =
     bindE (GETBITS 2 r0) (\<lambda>(cd, r).
     let f0 = new_frqObs\<lparr>rnxType2ch :=
                (if cd = 3 then ''2W'' else if cd = 2 then ''2W''
                 else if cd = 1 then ''2P'' else if cd = 0 then ''2X'' else [])\<rparr> in
     bindE (GETBITSSIGN 14 r) (\<lambda>(i, r).
     let f1 = (if (i AND (push_bit 14 1 - 1)) \<noteq> 0x2000
               then f0\<lparr>code := of_nat l1range * 0.02 + of_int i * 0.02 + of_nat amb * 299792.458,
                       codeValid := True\<rparr>
               else f0) in
     bindE (GETBITSSIGN 20 r) (\<lambda>(i, r).
     let f2 = (if (i AND (push_bit 20 1 - 1)) \<noteq> 0x80000
               then f1\<lparr>phase := (of_nat l1range * 0.02 + of_int i * 0.0005
                                   + of_nat amb * 299792.458) / GPS_WAVELENGTH_L2,
                       phaseValid := True\<rparr>
               else f1) in
     bindE (GETBITS 7 r) (\<lambda>(lti, r).
     let f3 = f2\<lparr>lockTimeIndicator := lti, lockTime := lti2sec env ty lti\<rparr>;
         f4 = f3\<lparr>lockTimeValid := (lockTime f3 \<ge> 0 \<and> phaseValid f3)\<rparr> in
     if ty = 1004 then
       bindE (GETBITS 8 r) (\<lambda>(i, r).
       let f5 = (if i \<noteq> 0 then f4\<lparr>snr := of_nat i * 0.25, snrValid := True\<rparr> else f4) in
       Inr (f5, r))
     else Inr (f4, r)))))"

text \<open>The body of \<^verbatim>\<open>while (numsats--)\<close>: one satellite.\<close>

definition DecodeRTCM3GPS_sat ::
  "env \<Rightarrow> nat \<Rightarrow> int \<Rightarrow> reader \<Rightarrow> error + (t_satObs \<times> reader)" where
  "DecodeRTCM3GPS_sat env ty CurrentObsTime r0 =
     bindE (GETBITS 6 r0) (\<lambda>(sv, r).
     let p = (if sv < 40 then \<lparr>system = CHR ''G'', number = int sv\<rparr>
              else \<lparr>system = CHR ''S'', number = int sv - 20\<rparr>) in
     bindE (DecodeRTCM3GPS_L1 env ty r) (\<lambda>((f1, l1range, amb), r).
     if ty = 1003 \<or> ty = 1004 then
       bindE (DecodeRTCM3GPS_L2 env ty l1range amb r) (\<lambda>(f2, r).
       Inr (\<lparr>prn = p, time = CurrentObsTime, type = ty, obs = [f1, f2]\<rparr>, r))
     else Inr (\<lparr>prn = p, time = CurrentObsTime, type = ty, obs = [f1]\<rparr>, r)))"

fun DecodeRTCM3GPS_sats ::
  "env \<Rightarrow> nat \<Rightarrow> int \<Rightarrow> nat \<Rightarrow> reader \<Rightarrow> t_satObs list \<Rightarrow> error + (t_satObs list \<times> reader)" where
  "DecodeRTCM3GPS_sats env ty t 0 r acc = Inr (acc, r)"
| "DecodeRTCM3GPS_sats env ty t (Suc numsats) r acc =
     bindE (DecodeRTCM3GPS_sat env ty t r) (\<lambda>(ob, r').
     DecodeRTCM3GPS_sats env ty t numsats r' (acc @ [ob]))"

definition DecodeRTCM3GPS :: "env \<Rightarrow> byte list \<Rightarrow> nat \<Rightarrow> decoder \<Rightarrow> error + (bool \<times> decoder)" where
  "DecodeRTCM3GPS env data sz st =
     bindE (GETBITS 12 (payload_reader data sz)) (\<lambda>(ty, r).
     bindE (SKIPBITS 12 r) (\<lambda>r.
     bindE (GETBITS 30 r) (\<lambda>(i, r).
     let CurrentObsTime = time_set env i;
         (decoded, st1) = epoch_begin CurrentObsTime st in
     bindE (GETBITS 1 r) (\<lambda>(syncf, r).
     bindE (GETBITS 5 r) (\<lambda>(numsats, r).
     bindE (SKIPBITS 4 r) (\<lambda>r.
     bindE (DecodeRTCM3GPS_sats env ty CurrentObsTime numsats r (CurrentObsList st1)) (\<lambda>(lst, r).
     Inr (epoch_end syncf decoded (st1\<lparr>CurrentObsList := lst\<rparr>)))))))))"

section \<open>Legacy GLONASS observations (1009-1012)\<close>

text \<open>
  \<^verbatim>\<open>GLOFreq[idx] = v\<close> on the static table \<^verbatim>\<open>int GLOFreq[RTCM3_MSM_NUMSAT]\<close>. C does
  not check the index; a write outside 0..63 is undefined there and an error here.
\<close>

definition RTCM3_MSM_NUMSIG :: nat where "RTCM3_MSM_NUMSIG = 32"
definition RTCM3_MSM_NUMSAT :: nat where "RTCM3_MSM_NUMSAT = 64"
definition RTCM3_MSM_NUMCELLS :: nat where "RTCM3_MSM_NUMCELLS = 96"

definition GLOFreq_store :: "int \<Rightarrow> int \<Rightarrow> int list \<Rightarrow> error + int list" where
  "GLOFreq_store idx v tbl =
     (if 0 \<le> idx \<and> idx < int RTCM3_MSM_NUMSAT then Inr (tbl[nat idx := v])
      else Inl (OutOfBounds idx))"

definition DecodeRTCM3GLONASS_L1 ::
  "env \<Rightarrow> nat \<Rightarrow> nat \<Rightarrow> nat \<Rightarrow> reader \<Rightarrow> error + ((t_frqObs \<times> nat \<times> nat) \<times> reader)" where
  "DecodeRTCM3GLONASS_L1 env ty cd freq r0 =
     (let f0 = new_frqObs\<lparr>rnxType2ch := (if cd \<noteq> 0 then ''1P'' else ''1C'')\<rparr> in
     bindE (GETBITS 25 r0) (\<lambda>(l1range, r).
     bindE (GETBITSSIGN 20 r) (\<lambda>(i, r).
     let f1 = (if (i AND (push_bit 20 1 - 1)) \<noteq> 0x80000
               then f0\<lparr>code := of_nat l1range * 0.02,
                       phase := (of_nat l1range * 0.02 + of_int i * 0.0005)
                                  / GLO_WAVELENGTH_L1 (int freq - 7),
                       codeValid := True, phaseValid := True\<rparr>
               else f0) in
     bindE (GETBITS 7 r) (\<lambda>(lti, r).
     let f2 = f1\<lparr>lockTimeIndicator := lti, lockTime := lti2sec env ty lti\<rparr>;
         f3 = f2\<lparr>lockTimeValid := (lockTime f2 \<ge> 0 \<and> phaseValid f2)\<rparr> in
     if ty = 1010 \<or> ty = 1012 then
       bindE (GETBITS 7 r) (\<lambda>(amb, r).
       let f4 = (if amb \<noteq> 0
                 then f3\<lparr>code := code f3 + of_nat amb * 599584.916,
                         phase := phase f3 + (of_nat amb * 599584.916)
                                               / GLO_WAVELENGTH_L1 (int freq - 7)\<rparr>
                 else f3) in
       bindE (GETBITS 8 r) (\<lambda>(i, r).
       let f5 = (if i \<noteq> 0 then f4\<lparr>snr := of_nat i * 0.25, snrValid := True\<rparr> else f4) in
       Inr ((f5, l1range, amb), r)))
     else Inr ((f3, l1range, 0), r)))))"

definition DecodeRTCM3GLONASS_L2 ::
  "env \<Rightarrow> nat \<Rightarrow> nat \<Rightarrow> nat \<Rightarrow> nat \<Rightarrow> reader \<Rightarrow> error + (t_frqObs \<times> reader)" where
  "DecodeRTCM3GLONASS_L2 env ty freq l1range amb r0 =
     bindE (GETBITS 2 r0) (\<lambda>(cd, r).
     let f0 = new_frqObs\<lparr>rnxType2ch :=
                (if cd = 3 then ''2P'' else if cd = 2 then ''2P''
                 else if cd = 1 then ''2P'' else if cd = 0 then ''2C'' else [])\<rparr> in
     bindE (GETBITSSIGN 14 r) (\<lambda>(i, r).
     let f1 = (if (i AND (push_bit 14 1 - 1)) \<noteq> 0x2000
               then f0\<lparr>code := of_nat l1range * 0.02 + of_int i * 0.02 + of_nat amb * 599584.916,
                       codeValid := True\<rparr>
               else f0) in
     bindE (GETBITSSIGN 20 r) (\<lambda>(i, r).
     let f2 = (if (i AND (push_bit 20 1 - 1)) \<noteq> 0x80000
               then f1\<lparr>phase := (of_nat l1range * 0.02 + of_int i * 0.0005
                                   + of_nat amb * 599584.916) / GLO_WAVELENGTH_L2 (int freq - 7),
                       phaseValid := True\<rparr>
               else f1) in
     bindE (GETBITS 7 r) (\<lambda>(lti, r).
     let f3 = f2\<lparr>lockTimeIndicator := lti, lockTime := lti2sec env ty lti\<rparr>;
         f4 = f3\<lparr>lockTimeValid := (lockTime f3 \<ge> 0 \<and> phaseValid f3)\<rparr> in
     if ty = 1012 then
       bindE (GETBITS 8 r) (\<lambda>(i, r).
       let f5 = (if i \<noteq> 0 then f4\<lparr>snr := of_nat i * 0.25, snrValid := True\<rparr> else f4) in
       Inr (f5, r))
     else Inr (f4, r)))))"

text \<open>One satellite; the frequency table is threaded through because of the store
  \<^verbatim>\<open>GLOFreq[sv - 1] = 100 + freq - 7\<close>.\<close>

definition DecodeRTCM3GLONASS_sat ::
  "env \<Rightarrow> nat \<Rightarrow> int \<Rightarrow> int list \<Rightarrow> reader \<Rightarrow> error + ((t_satObs \<times> int list) \<times> reader)" where
  "DecodeRTCM3GLONASS_sat env ty CurrentObsTime tbl r0 =
     bindE (GETBITS 6 r0) (\<lambda>(sv, r).
     let p = \<lparr>system = CHR ''R'', number = int sv\<rparr> in
     bindE (GETBITS 1 r) (\<lambda>(cd, r).
     bindE (GETBITS 5 r) (\<lambda>(freq, r).
     bindE (GLOFreq_store (int sv - 1) (100 + int freq - 7) tbl) (\<lambda>tbl'.
     bindE (DecodeRTCM3GLONASS_L1 env ty cd freq r) (\<lambda>((f1, l1range, amb), r).
     if ty = 1011 \<or> ty = 1012 then
       bindE (DecodeRTCM3GLONASS_L2 env ty freq l1range amb r) (\<lambda>(f2, r).
       Inr ((\<lparr>prn = p, time = CurrentObsTime, type = ty, obs = [f1, f2]\<rparr>, tbl'), r))
     else Inr ((\<lparr>prn = p, time = CurrentObsTime, type = ty, obs = [f1]\<rparr>, tbl'), r))))))"

fun DecodeRTCM3GLONASS_sats ::
  "env \<Rightarrow> nat \<Rightarrow> int \<Rightarrow> nat \<Rightarrow> reader \<Rightarrow> t_satObs list \<Rightarrow> int list
     \<Rightarrow> error + ((t_satObs list \<times> int list) \<times> reader)" where
  "DecodeRTCM3GLONASS_sats env ty t 0 r acc tbl = Inr ((acc, tbl), r)"
| "DecodeRTCM3GLONASS_sats env ty t (Suc numsats) r acc tbl =
     bindE (DecodeRTCM3GLONASS_sat env ty t tbl r) (\<lambda>((ob, tbl'), r').
     DecodeRTCM3GLONASS_sats env ty t numsats r' (acc @ [ob]) tbl')"

definition DecodeRTCM3GLONASS ::
  "env \<Rightarrow> byte list \<Rightarrow> nat \<Rightarrow> decoder \<Rightarrow> error + (bool \<times> decoder)" where
  "DecodeRTCM3GLONASS env data sz st =
     bindE (GETBITS 12 (payload_reader data sz)) (\<lambda>(ty, r).
     bindE (SKIPBITS 12 r) (\<lambda>r.
     bindE (GETBITS 27 r) (\<lambda>(i, r).
     let CurrentObsTime = time_setTk env i;
         (decoded, st1) = epoch_begin CurrentObsTime st in
     bindE (GETBITS 1 r) (\<lambda>(syncf, r).
     bindE (GETBITS 5 r) (\<lambda>(numsats, r).
     bindE (SKIPBITS 4 r) (\<lambda>r.
     bindE (DecodeRTCM3GLONASS_sats env ty CurrentObsTime numsats r
              (CurrentObsList st1) (GLOFreq st1)) (\<lambda>((lst, tbl), r).
     Inr (epoch_end syncf decoded (st1\<lparr>CurrentObsList := lst, GLOFreq := tbl\<rparr>)))))))))"

section \<open>MSM observations (1071-1137)\<close>

text \<open>\<^verbatim>\<open>struct CodeData { double wl; const char *code; }\<close>: a null \<^verbatim>\<open>code\<close> is
  \<open>None\<close>.\<close>

type_synonym CodeData = "rat \<times> string option"

definition GAL_WAVELENGTH_E1 :: rat where "GAL_WAVELENGTH_E1 = LIGHTSPEED / 1575420000"
definition GAL_WAVELENGTH_E5A :: rat where "GAL_WAVELENGTH_E5A = LIGHTSPEED / 1176450000"
definition GAL_WAVELENGTH_E5AB :: rat where "GAL_WAVELENGTH_E5AB = LIGHTSPEED / 1191795000"
definition GAL_WAVELENGTH_E5B :: rat where "GAL_WAVELENGTH_E5B = LIGHTSPEED / 1207140000"
definition GAL_WAVELENGTH_E6 :: rat where "GAL_WAVELENGTH_E6 = LIGHTSPEED / 1278750000"
definition QZSS_WAVELENGTH_L6 :: rat where "QZSS_WAVELENGTH_L6 = LIGHTSPEED / 1278750000"
definition BDS_WAVELENGTH_B1 :: rat where "BDS_WAVELENGTH_B1 = LIGHTSPEED / 1561098000"
definition BDS_WAVELENGTH_B2 :: rat where "BDS_WAVELENGTH_B2 = LIGHTSPEED / 1207140000"
definition BDS_WAVELENGTH_B3 :: rat where "BDS_WAVELENGTH_B3 = LIGHTSPEED / 1268520000"
definition BDS_WAVELENGTH_B1C :: rat where "BDS_WAVELENGTH_B1C = LIGHTSPEED / 1575420000"
definition BDS_WAVELENGTH_B2a :: rat where "BDS_WAVELENGTH_B2a = LIGHTSPEED / 1176450000"
definition BDS_WAVELENGTH_B2b :: rat where "BDS_WAVELENGTH_B2b = LIGHTSPEED / 1207140000"
definition IRNSS_WAVELENGTH_L5 :: rat where "IRNSS_WAVELENGTH_L5 = LIGHTSPEED / 1176450000"
definition IRNSS_WAVELENGTH_S :: rat where "IRNSS_WAVELENGTH_S = LIGHTSPEED / 2492028000"

definition gps :: "CodeData list" where
  "gps = [(0, None),
     (GPS_WAVELENGTH_L1, Some ''1C''), (GPS_WAVELENGTH_L1, Some ''1P''),
     (GPS_WAVELENGTH_L1, Some ''1W''),
     (0, None), (0, None), (0, None),
     (GPS_WAVELENGTH_L2, Some ''2C''), (GPS_WAVELENGTH_L2, Some ''2P''),
     (GPS_WAVELENGTH_L2, Some ''2W''),
     (0, None), (0, None), (0, None), (0, None),
     (GPS_WAVELENGTH_L2, Some ''2S''), (GPS_WAVELENGTH_L2, Some ''2L''),
     (GPS_WAVELENGTH_L2, Some ''2X''),
     (0, None), (0, None), (0, None), (0, None),
     (GPS_WAVELENGTH_L5, Some ''5I''), (GPS_WAVELENGTH_L5, Some ''5Q''),
     (GPS_WAVELENGTH_L5, Some ''5X''),
     (0, None), (0, None), (0, None), (0, None), (0, None),
     (GPS_WAVELENGTH_L1, Some ''1S''), (GPS_WAVELENGTH_L1, Some ''1L''),
     (GPS_WAVELENGTH_L1, Some ''1X'')]"

text \<open>The source notes on the GLONASS table: "Uses 0.0, 1.0 for wavelength as sat index
  dependence is done later!"\<close>

definition glo :: "CodeData list" where
  "glo = [(0, None),
     (0, Some ''1C''), (0, Some ''1P''),
     (0, None), (0, None), (0, None), (0, None),
     (1, Some ''2C''), (1, Some ''2P''),
     (GLO_WAVELENGTH_L1a, Some ''4A''), (GLO_WAVELENGTH_L1a, Some ''4B''),
     (GLO_WAVELENGTH_L1a, Some ''4X''),
     (GLO_WAVELENGTH_L2a, Some ''6A''), (GLO_WAVELENGTH_L2a, Some ''6B''),
     (GLO_WAVELENGTH_L2a, Some ''6X''),
     (GLO_WAVELENGTH_L3, Some ''3I''), (GLO_WAVELENGTH_L3, Some ''3Q''),
     (GLO_WAVELENGTH_L3, Some ''3X''),
     (0, None), (0, None), (0, None), (0, None), (0, None), (0, None), (0, None),
     (0, None), (0, None), (0, None), (0, None), (0, None), (0, None), (0, None)]"

definition gal :: "CodeData list" where
  "gal = [(0, None),
     (GAL_WAVELENGTH_E1, Some ''1C''), (GAL_WAVELENGTH_E1, Some ''1A''),
     (GAL_WAVELENGTH_E1, Some ''1B''), (GAL_WAVELENGTH_E1, Some ''1X''),
     (GAL_WAVELENGTH_E1, Some ''1Z''),
     (0, None),
     (GAL_WAVELENGTH_E6, Some ''6C''), (GAL_WAVELENGTH_E6, Some ''6A''),
     (GAL_WAVELENGTH_E6, Some ''6B''), (GAL_WAVELENGTH_E6, Some ''6X''),
     (GAL_WAVELENGTH_E6, Some ''6Z''),
     (0, None),
     (GAL_WAVELENGTH_E5B, Some ''7I''), (GAL_WAVELENGTH_E5B, Some ''7Q''),
     (GAL_WAVELENGTH_E5B, Some ''7X''),
     (0, None),
     (GAL_WAVELENGTH_E5AB, Some ''8I''), (GAL_WAVELENGTH_E5AB, Some ''8Q''),
     (GAL_WAVELENGTH_E5AB, Some ''8X''),
     (0, None),
     (GAL_WAVELENGTH_E5A, Some ''5I''), (GAL_WAVELENGTH_E5A, Some ''5Q''),
     (GAL_WAVELENGTH_E5A, Some ''5X''),
     (0, None), (0, None), (0, None), (0, None), (0, None), (0, None), (0, None),
     (0, None)]"

definition qzss :: "CodeData list" where
  "qzss = [(0, None),
     (GPS_WAVELENGTH_L1, Some ''1C''),
     (0, None), (0, None), (0, None), (0, None), (0, None), (0, None),
     (QZSS_WAVELENGTH_L6, Some ''6S''), (QZSS_WAVELENGTH_L6, Some ''6L''),
     (QZSS_WAVELENGTH_L6, Some ''6X''),
     (0, None), (0, None), (0, None),
     (GPS_WAVELENGTH_L2, Some ''2S''), (GPS_WAVELENGTH_L2, Some ''2L''),
     (GPS_WAVELENGTH_L2, Some ''2X''),
     (0, None), (0, None), (0, None), (0, None),
     (GPS_WAVELENGTH_L5, Some ''5I''), (GPS_WAVELENGTH_L5, Some ''5Q''),
     (GPS_WAVELENGTH_L5, Some ''5X''),
     (0, None), (0, None), (0, None), (0, None), (0, None),
     (GPS_WAVELENGTH_L1, Some ''1S''), (GPS_WAVELENGTH_L1, Some ''1L''),
     (GPS_WAVELENGTH_L1, Some ''1X'')]"

definition bds :: "CodeData list" where
  "bds = [(0, None),
     (BDS_WAVELENGTH_B1, Some ''2I''), (BDS_WAVELENGTH_B1, Some ''2Q''),
     (BDS_WAVELENGTH_B1, Some ''2X''),
     (0, None), (0, None), (0, None),
     (BDS_WAVELENGTH_B3, Some ''6I''), (BDS_WAVELENGTH_B3, Some ''6Q''),
     (BDS_WAVELENGTH_B3, Some ''6X''),
     (0, None), (0, None), (0, None),
     (BDS_WAVELENGTH_B2, Some ''7I''), (BDS_WAVELENGTH_B2, Some ''7Q''),
     (BDS_WAVELENGTH_B2, Some ''7X''),
     (0, None), (0, None), (0, None), (0, None), (0, None),
     (BDS_WAVELENGTH_B2a, Some ''5D''), (BDS_WAVELENGTH_B2a, Some ''5P''),
     (BDS_WAVELENGTH_B2a, Some ''5X''),
     (BDS_WAVELENGTH_B2b, Some ''7D''),
     (0, None), (0, None), (0, None), (0, None),
     (BDS_WAVELENGTH_B1C, Some ''1D''), (BDS_WAVELENGTH_B1C, Some ''1P''),
     (BDS_WAVELENGTH_B1C, Some ''1X'')]"

definition irn :: "CodeData list" where
  "irn = [(0, None), (0, None), (0, None), (0, None), (0, None), (0, None), (0, None),
     (IRNSS_WAVELENGTH_S, Some ''9A''),
     (0, None), (0, None), (0, None), (0, None), (0, None), (0, None), (0, None),
     (0, None), (0, None), (0, None), (0, None), (0, None), (0, None),
     (IRNSS_WAVELENGTH_L5, Some ''5A''),
     (0, None), (0, None), (0, None), (0, None), (0, None), (0, None), (0, None),
     (0, None), (0, None), (0, None)]"

text \<open>Population count as the source writes it:
  \<^verbatim>\<open>for (ui = satmask; ui; ui &= (ui - 1)) ++numsat;\<close>\<close>

function popcount :: "nat \<Rightarrow> nat" where
  "popcount ui = (if ui = 0 then 0 else Suc (popcount (ui AND (ui - 1))))"
  by pat_completeness auto
termination
proof (relation "measure id")
  show "wf (measure id)" by simp
next
  fix ui :: nat
  assume "ui \<noteq> 0"
  have "int (ui AND (ui - 1)) \<le> int (ui - 1)"
    unfolding of_nat_and_eq by (rule AND_upper2) simp
  then have "ui AND (ui - 1) \<le> ui - 1" by simp
  with \<open>ui \<noteq> 0\<close> show "(ui AND (ui - 1), ui) \<in> measure id" by simp
qed

declare popcount.simps [simp del]

text \<open>
  The per-satellite and per-cell arrays of the source are functions from the index,
  filled by the loops \<^verbatim>\<open>for (int j = numsat; j--;) GET(a[j])\<close> and
  \<^verbatim>\<open>for (int count = numcells; count--;) if (cellmask & (UINT64(1) << count)) GET(a[count])\<close>.
  The cell mask is a \<^verbatim>\<open>uint64_t\<close>: the test reads bit \<open>count\<close> of it for \<open>count\<close> below
  64, and for a larger \<open>count\<close> the shift \<^verbatim>\<open>UINT64(1) << count\<close> is undefined in C, an
  error here.
\<close>

definition cell_test :: "nat \<Rightarrow> nat \<Rightarrow> error + bool" where
  "cell_test cellmask count =
     (if count < 64 then Inr (bit cellmask count) else Inl (ShiftCount count))"

record msm_sat =
  rrmod :: "nat \<Rightarrow> rat"
  rrint :: "nat \<Rightarrow> nat"
  rdop :: "nat \<Rightarrow> int"
  extsat :: "nat \<Rightarrow> nat"

record msm_sig =
  ll :: "nat \<Rightarrow> nat"
  cnr :: "nat \<Rightarrow> rat"
  cp :: "nat \<Rightarrow> rat"
  psr :: "nat \<Rightarrow> rat"
  dop :: "nat \<Rightarrow> rat"

fun read_sat_array ::
  "(reader \<Rightarrow> error + ('a \<times> reader)) \<Rightarrow> nat \<Rightarrow> (nat \<Rightarrow> 'a) \<Rightarrow> reader
     \<Rightarrow> error + ((nat \<Rightarrow> 'a) \<times> reader)" where
  "read_sat_array get 0 arr r = Inr (arr, r)"
| "read_sat_array get (Suc j) arr r =
     bindE (get r) (\<lambda>(v, r'). read_sat_array get j (arr(j := v)) r')"

fun read_cell_array ::
  "(reader \<Rightarrow> error + ('a \<times> reader)) \<Rightarrow> nat \<Rightarrow> nat \<Rightarrow> (nat \<Rightarrow> 'a) \<Rightarrow> reader
     \<Rightarrow> error + ((nat \<Rightarrow> 'a) \<times> reader)" where
  "read_cell_array get cellmask 0 arr r = Inr (arr, r)"
| "read_cell_array get cellmask (Suc count) arr r =
     bindE (cell_test cellmask count) (\<lambda>b.
     if b
     then bindE (get r) (\<lambda>(v, r'). read_cell_array get cellmask count (arr(count := v)) r')
     else read_cell_array get cellmask count arr r)"

fun skip_cell_array :: "nat \<Rightarrow> nat \<Rightarrow> nat \<Rightarrow> reader \<Rightarrow> error + reader" where
  "skip_cell_array n cellmask 0 r = Inr r"
| "skip_cell_array n cellmask (Suc count) r =
     bindE (cell_test cellmask count) (\<lambda>b.
     if b
     then bindE (SKIPBITS n r) (\<lambda>r'. skip_cell_array n cellmask count r')
     else skip_cell_array n cellmask count r)"

definition GETNAT :: "nat \<Rightarrow> reader \<Rightarrow> error + (rat \<times> reader)" where
  "GETNAT n r = bindE (GETBITS n r) (\<lambda>(v, r'). Inr (of_nat v, r'))"

text \<open>The satellite data, \<^verbatim>\<open>switch (type % 10)\<close>. Only the cases 4 to 7 are written
  out: the enclosing test admits no other subtype.\<close>

definition msm_sat_data :: "nat \<Rightarrow> nat \<Rightarrow> reader \<Rightarrow> error + (msm_sat \<times> reader)" where
  "msm_sat_data ty numsat r0 =
     (let sa = \<lparr>rrmod = (\<lambda>_. 0), rrint = (\<lambda>_. 0), rdop = (\<lambda>_. 0), extsat = (\<lambda>_. 15)\<rparr> in
      if ty mod 10 = 4 \<or> ty mod 10 = 6 then
        bindE (read_sat_array (GETBITS 8) numsat (rrint sa) r0) (\<lambda>(a, r).
        bindE (read_sat_array (GETFLOAT 10 (1 / 1024)) numsat (rrmod sa) r) (\<lambda>(b, r).
        Inr (sa\<lparr>rrint := a, rrmod := b\<rparr>, r)))
      else if ty mod 10 = 5 \<or> ty mod 10 = 7 then
        bindE (read_sat_array (GETBITS 8) numsat (rrint sa) r0) (\<lambda>(a, r).
        bindE (read_sat_array (GETBITS 4) numsat (extsat sa) r) (\<lambda>(e, r).
        bindE (read_sat_array (GETFLOAT 10 (1 / 1024)) numsat (rrmod sa) r) (\<lambda>(b, r).
        bindE (read_sat_array (GETBITSSIGN 14) numsat (rdop sa) r) (\<lambda>(d, r).
        Inr (sa\<lparr>rrint := a, extsat := e, rrmod := b, rdop := d\<rparr>, r)))))
      else Inr (sa, r0))"

text \<open>The signal data, \<^verbatim>\<open>switch (type % 10)\<close>, cases 4 to 7.\<close>

definition msm_sig_data :: "nat \<Rightarrow> nat \<Rightarrow> nat \<Rightarrow> reader \<Rightarrow> error + (msm_sig \<times> reader)" where
  "msm_sig_data ty cellmask numcells r0 =
     (let sg = \<lparr>ll = (\<lambda>_. 0), cnr = (\<lambda>_. 0), cp = (\<lambda>_. 0), psr = (\<lambda>_. 0), dop = (\<lambda>_. 0)\<rparr>;
          hi = (ty mod 10 = 6 \<or> ty mod 10 = 7) in
      if ty mod 10 = 4 \<or> ty mod 10 = 5 \<or> ty mod 10 = 6 \<or> ty mod 10 = 7 then
        bindE (read_cell_array
                 (if hi then GETFLOATSIGN 20 (1 / 2 ^ 29) else GETFLOATSIGN 15 (1 / 2 ^ 24))
                 cellmask numcells (psr sg) r0) (\<lambda>(p, r).
        bindE (read_cell_array
                 (if hi then GETFLOATSIGN 24 (1 / 2 ^ 31) else GETFLOATSIGN 22 (1 / 2 ^ 29))
                 cellmask numcells (cp sg) r) (\<lambda>(c, r).
        bindE (read_cell_array (if hi then GETBITS 10 else GETBITS 4)
                 cellmask numcells (ll sg) r) (\<lambda>(l, r).
        bindE (skip_cell_array 1 cellmask numcells r) (\<lambda>r.
        bindE (read_cell_array (if hi then GETFLOAT 10 (1 / 2 ^ 4) else GETNAT 6)
                 cellmask numcells (cnr sg) r) (\<lambda>(n, r).
        if ty mod 10 = 5 \<or> ty mod 10 = 7 then
          bindE (read_cell_array (GETFLOATSIGN 15 0.0001) cellmask numcells (dop sg) r) (\<lambda>(d, r).
          Inr (sg\<lparr>psr := p, cp := c, ll := l, cnr := n, dop := d\<rparr>, r))
        else Inr (sg\<lparr>psr := p, cp := c, ll := l, cnr := n\<rparr>, r))))))
      else Inr (sg, r0))"

text \<open>
  The bit searches of the cell walk.
  \<^verbatim>\<open>while (!(mask & (1 << (--i))));\<close> steps down to the next set bit; it is used on the
  satellite mask from \<open>i\<close> and on the signal mask from 32. Below bit 0 the shift count
  would be negative.
  \<^verbatim>\<open>while (j >= 0 && !(sigmask & (1 << --j)));\<close> does the same within a satellite and ends
  with \<open>j = -1\<close> when no lower signal bit is set.
\<close>

fun next_set_bit :: "nat \<Rightarrow> nat \<Rightarrow> error + nat" where
  "next_set_bit msk 0 = Inl NegativeShift"
| "next_set_bit msk (Suc i) = (if bit msk i then Inr i else next_set_bit msk i)"

fun next_sig :: "nat \<Rightarrow> nat \<Rightarrow> int" where
  "next_sig sigmask 0 = - 1"
| "next_sig sigmask (Suc j) = (if bit sigmask j then int j else next_sig sigmask j)"

text \<open>The table entry of a signal: \<^verbatim>\<open>switch (sys)\<close> over
  \<^verbatim>\<open>cd = tab[RTCM3_MSM_NUMSIG - j - 1]\<close>, before the GLONASS adjustment.\<close>

definition msm_code_data :: "char \<Rightarrow> nat \<Rightarrow> CodeData" where
  "msm_code_data sys j =
     (if sys = CHR ''J'' then qzss ! (RTCM3_MSM_NUMSIG - j - 1)
      else if sys = CHR ''C'' then bds ! (RTCM3_MSM_NUMSIG - j - 1)
      else if sys = CHR ''G'' \<or> sys = CHR ''S'' then gps ! (RTCM3_MSM_NUMSIG - j - 1)
      else if sys = CHR ''R'' then glo ! (RTCM3_MSM_NUMSIG - j - 1)
      else if sys = CHR ''E'' then gal ! (RTCM3_MSM_NUMSIG - j - 1)
      else if sys = CHR ''I'' then irn ! (RTCM3_MSM_NUMSIG - j - 1)
      else (0, None))"

text \<open>
  The GLONASS adjustment of \<^verbatim>\<open>case 'R'\<close>:
  \<^verbatim>\<open>int k = GLOFreq[RTCM3_MSM_NUMSAT - i - 1];
  if (extsat[numsat] < 14) k = GLOFreq[RTCM3_MSM_NUMSAT - i - 1] = 100 + extsat[numsat] - 7;
  if (k) { if (cd.wl == 0.0) cd.wl = GLO_WAVELENGTH_L1(k - 100);
           else if (cd.wl == 1.0) cd.wl = GLO_WAVELENGTH_L2(k - 100); }
  else if (!k && cd.wl <= 1) cd.code = 0;\<close>
\<close>

definition glo_channel :: "nat \<Rightarrow> nat \<Rightarrow> int list \<Rightarrow> error + (int \<times> int list)" where
  "glo_channel i ext tbl =
     (if ext < 14
      then bindE (GLOFreq_store (int RTCM3_MSM_NUMSAT - int i - 1) (100 + int ext - 7) tbl)
             (\<lambda>tbl'. Inr (100 + int ext - 7, tbl'))
      else Inr (tbl ! (RTCM3_MSM_NUMSAT - i - 1), tbl))"

definition glo_adjust :: "int \<Rightarrow> CodeData \<Rightarrow> CodeData" where
  "glo_adjust k cd =
     (if k \<noteq> 0
      then (if fst cd = 0 then (GLO_WAVELENGTH_L1 (k - 100), snd cd)
            else if fst cd = 1 then (GLO_WAVELENGTH_L2 (k - 100), snd cd)
            else cd)
      else if fst cd \<le> 1 then (fst cd, None)
      else cd)"

text \<open>The observation of one cell, \<^verbatim>\<open>switch (type % 10)\<close> cases 4 to 7; the cases differ
  only in the Doppler part, which 5 and 7 have.\<close>

definition msm_frqObs ::
  "env \<Rightarrow> nat \<Rightarrow> rat \<Rightarrow> string \<Rightarrow> msm_sat \<Rightarrow> msm_sig \<Rightarrow> nat \<Rightarrow> nat \<Rightarrow> t_frqObs" where
  "msm_frqObs env ty wl cod sa sg numsat count =
     (let f0 = new_frqObs\<lparr>rnxType2ch := cod\<rparr>;
          f1 = (if psr sg count > - 1 / 2 ^ 10
                then f0\<lparr>code := psr sg count * LIGHTSPEED / 1000
                          + (rrmod sa numsat + of_nat (rrint sa numsat)) * LIGHTSPEED / 1000,
                        codeValid := True\<rparr>
                else f0);
          f2 = (if cp sg count > - 1 / 2 ^ 8
                then f1\<lparr>phase := cp sg count * LIGHTSPEED / 1000 / wl
                          + (rrmod sa numsat + of_nat (rrint sa numsat)) * LIGHTSPEED / 1000 / wl,
                        phaseValid := True,
                        lockTime := lti2sec env ty (ll sg count),
                        lockTimeValid := (lti2sec env ty (ll sg count) \<ge> 0),
                        lockTimeIndicator := ll sg count\<rparr>
                else f1);
          f3 = f2\<lparr>snr := cnr sg count, snrValid := True\<rparr>
      in if (ty mod 10 = 5 \<or> ty mod 10 = 7) \<and> dop sg count > - 1.6384
         then f3\<lparr>doppler := - (dop sg count + of_int (rdop sa numsat)) / wl,
                 dopplerValid := True\<rparr>
         else f3)"

text \<open>The state of the cell walk: the satellite bit \<open>i\<close>, the signal bit \<open>j\<close>, the
  satellite data index \<open>numsat\<close>, \<^verbatim>\<open>CurrentObs\<close>, the staged list and the frequency
  table.\<close>

record msm_walk =
  w_i :: nat
  w_j :: int
  w_numsat :: nat
  w_obs :: t_satObs
  w_list :: "t_satObs list"
  w_tbl :: "int list"

definition empty_satObs :: t_satObs where
  "empty_satObs = \<lparr>prn = \<lparr>system = CHR '' '', number = 0\<rparr>, time = 0, type = 0, obs = []\<rparr>"

text \<open>The head of the loop body: advance the signal bit, or start the next satellite.\<close>

definition msm_advance ::
  "nat \<Rightarrow> char \<Rightarrow> int \<Rightarrow> nat \<Rightarrow> nat \<Rightarrow> msm_walk \<Rightarrow> error + msm_walk" where
  "msm_advance ty sys CurrentObsTime satmask sigmask w =
     (let j1 = (if w_j w \<ge> 0 then next_sig sigmask (nat (w_j w)) else w_j w) in
      if j1 < 0 then
        bindE (next_set_bit satmask (w_i w)) (\<lambda>i'.
        bindE (next_set_bit sigmask RTCM3_MSM_NUMSIG) (\<lambda>j'.
        Inr (w\<lparr>w_i := i', w_j := int j', w_numsat := w_numsat w - 1,
               w_list := (if obs (w_obs w) \<noteq> [] then w_list w @ [w_obs w] else w_list w),
               w_obs := \<lparr>prn = (if sys = CHR ''S''
                                then \<lparr>system = sys, number = 20 - 1 + int RTCM3_MSM_NUMSAT - int i'\<rparr>
                                else \<lparr>system = sys, number = int RTCM3_MSM_NUMSAT - int i'\<rparr>),
                          time = CurrentObsTime, type = ty, obs = []\<rparr>\<rparr>)))
      else Inr (w\<lparr>w_j := j1\<rparr>))"

text \<open>The rest of the body, for a cell whose mask bit is set.\<close>

definition msm_cell ::
  "env \<Rightarrow> nat \<Rightarrow> char \<Rightarrow> msm_sat \<Rightarrow> msm_sig \<Rightarrow> nat \<Rightarrow> msm_walk \<Rightarrow> error + msm_walk" where
  "msm_cell env ty sys sa sg count w =
     (let cd = msm_code_data sys (nat (w_j w)) in
      bindE (if sys = CHR ''R''
             then bindE (glo_channel (w_i w) (extsat sa (w_numsat w)) (w_tbl w))
                    (\<lambda>(k, tbl'). Inr (glo_adjust k cd, tbl'))
             else Inr (cd, w_tbl w)) (\<lambda>(cd', tbl').
      case snd cd' of
        Some cod \<Rightarrow>
          Inr (w\<lparr>w_tbl := tbl',
                 w_obs := (w_obs w)\<lparr>obs := obs (w_obs w)
                            @ [msm_frqObs env ty (fst cd') cod sa sg (w_numsat w) count]\<rparr>\<rparr>)
      | None \<Rightarrow> Inr (w\<lparr>w_tbl := tbl'\<rparr>)))"

text \<open>\<^verbatim>\<open>for (int count = numcells; count--;)\<close>\<close>

fun msm_cells ::
  "env \<Rightarrow> nat \<Rightarrow> char \<Rightarrow> int \<Rightarrow> nat \<Rightarrow> nat \<Rightarrow> nat \<Rightarrow> msm_sat \<Rightarrow> msm_sig \<Rightarrow> nat \<Rightarrow> msm_walk
     \<Rightarrow> error + msm_walk" where
  "msm_cells env ty sys t satmask sigmask cellmask sa sg 0 w = Inr w"
| "msm_cells env ty sys t satmask sigmask cellmask sa sg (Suc count) w =
     bindE (msm_advance ty sys t satmask sigmask w) (\<lambda>w1.
     bindE (cell_test cellmask count) (\<lambda>b.
     bindE (if b then msm_cell env ty sys sa sg count w1 else Inr w1) (\<lambda>w2.
     msm_cells env ty sys t satmask sigmask cellmask sa sg count w2)))"

text \<open>The block guarded by \<^verbatim>\<open>type <= 1137 && (type % 10) >= 4 && (type % 10) <= 7\<close>:
  masks, satellite data and, up to the cell limit, signal data and cell walk. The cell
  mask of \<open>numsat * numsig\<close> bits is kept in a \<^verbatim>\<open>uint64_t\<close>, which holds its low 64
  bits. Returns the staged list and the frequency table.\<close>

definition msm_body ::
  "env \<Rightarrow> nat \<Rightarrow> char \<Rightarrow> int \<Rightarrow> reader \<Rightarrow> t_satObs list \<Rightarrow> int list
     \<Rightarrow> error + (t_satObs list \<times> int list)" where
  "msm_body env ty sys CurrentObsTime r0 lst tbl =
     bindE (SKIPBITS (3 + 7 + 2 + 2 + 1 + 3) r0) (\<lambda>r.
     bindE (GETBITS RTCM3_MSM_NUMSAT r) (\<lambda>(satmask, r).
     let numsat = popcount satmask in
     bindE (GETBITS RTCM3_MSM_NUMSIG r) (\<lambda>(sigmask, r).
     let numsig = popcount sigmask in
     bindE (GETBITS (numsat * numsig) r) (\<lambda>(cm, r).
     let cellmask = cm mod 2 ^ 64 in
     bindE (msm_sat_data ty numsat r) (\<lambda>(sa, r).
     let numcells = numsat * numsig in
     if numcells \<le> RTCM3_MSM_NUMCELLS then
       bindE (msm_sig_data ty cellmask numcells r) (\<lambda>(sg, r).
       bindE (msm_cells env ty sys CurrentObsTime satmask sigmask cellmask sa sg numcells
                \<lparr>w_i = RTCM3_MSM_NUMSAT, w_j = - 1, w_numsat = numsat, w_obs = empty_satObs,
                 w_list = lst, w_tbl = tbl\<rparr>) (\<lambda>w.
       Inr (if obs (w_obs w) \<noteq> [] then w_list w @ [w_obs w] else w_list w, w_tbl w)))
     else Inr (lst, tbl))))))"

text \<open>The constellation of an MSM type, as the source tests it; the SBAS test is
  \<^verbatim>\<open>type >= 1101 && type <= 1007\<close> there.\<close>

definition msm_sys :: "nat \<Rightarrow> char option" where
  "msm_sys ty =
     (if ty \<ge> 1131 \<and> ty \<le> 1137 then Some (CHR ''I'')
      else if ty \<ge> 1121 \<and> ty \<le> 1127 then Some (CHR ''C'')
      else if ty \<ge> 1111 \<and> ty \<le> 1117 then Some (CHR ''J'')
      else if ty \<ge> 1101 \<and> ty \<le> 1007 then Some (CHR ''S'')
      else if ty \<ge> 1091 \<and> ty \<le> 1097 then Some (CHR ''E'')
      else if ty \<ge> 1081 \<and> ty \<le> 1087 then Some (CHR ''R'')
      else if ty \<ge> 1071 \<and> ty \<le> 1077 then Some (CHR ''G'')
      else None)"

definition msm_time :: "env \<Rightarrow> char \<Rightarrow> reader \<Rightarrow> error + (int \<times> reader)" where
  "msm_time env sys r0 =
     (if sys = CHR ''C'' then bindE (GETBITS 30 r0) (\<lambda>(i, r). Inr (time_setBDS env i, r))
      else if sys = CHR ''R'' then
        bindE (SKIPBITS 3 r0) (\<lambda>r. bindE (GETBITS 27 r) (\<lambda>(i, r). Inr (time_setTk env i, r)))
      else bindE (GETBITS 30 r0) (\<lambda>(i, r). Inr (time_set env i, r)))"

definition DecodeRTCM3MSM :: "env \<Rightarrow> byte list \<Rightarrow> nat \<Rightarrow> decoder \<Rightarrow> error + (bool \<times> decoder)" where
  "DecodeRTCM3MSM env data sz st =
     bindE (GETBITS 12 (payload_reader data sz)) (\<lambda>(ty, r).
     bindE (SKIPBITS 12 r) (\<lambda>r.
     case msm_sys ty of
       None \<Rightarrow> Inr (False, st)
     | Some sys \<Rightarrow>
         bindE (msm_time env sys r) (\<lambda>(CurrentObsTime, r).
         let (decoded, st1) = epoch_begin CurrentObsTime st in
         bindE (GETBITS 1 r) (\<lambda>(syncf, r).
         bindE (if ty \<le> 1137 \<and> ty mod 10 \<ge> 4 \<and> ty mod 10 \<le> 7
                then bindE (msm_body env ty sys CurrentObsTime r (CurrentObsList st1) (GLOFreq st1))
                       (\<lambda>(lst, tbl). Inr (st1\<lparr>CurrentObsList := lst, GLOFreq := tbl\<rparr>))
                else if ty mod 10 < 4
                then Inr (st1\<lparr>emitted := emitted st1 @ [newMessage ty]\<rparr>)
                else Inr st1) (\<lambda>st2.
         Inr (epoch_end syncf decoded st2))))))"

section \<open>Ephemeris decoders\<close>

text \<open>
  Each \<^verbatim>\<open>GETxxx(eph._field, n, scale)\<close> of the source is one step that reads the field
  and appends it, under its name, to the record. \<open>skp\<close> stands for a field that the
  source passes to a helper outside the given sources (\<^verbatim>\<open>accuracyFromIndex\<close>,
  \<^verbatim>\<open>fitIntervalFromFlag\<close>, \<^verbatim>\<open>pow\<close>) or skips: its bits are consumed. Reception
  time and station are not recorded.
\<close>

definition R2R_PI :: rat where "R2R_PI = 3.1415926535898"
definition M_PI :: rat where "M_PI = 3.14159265358979323846"

definition put :: "string \<Rightarrow> rat \<Rightarrow> t_eph \<Rightarrow> t_eph" where
  "put name v e = e\<lparr>eph_fields := eph_fields e @ [(name, v)]\<rparr>"

definition fldU :: "string \<Rightarrow> nat \<Rightarrow> t_eph \<times> reader \<Rightarrow> error + (t_eph \<times> reader)" where
  "fldU name n = (\<lambda>(e, r). bindE (GETBITS n r) (\<lambda>(v, r'). Inr (put name (of_nat v) e, r')))"

definition fldF :: "string \<Rightarrow> nat \<Rightarrow> rat \<Rightarrow> t_eph \<times> reader \<Rightarrow> error + (t_eph \<times> reader)" where
  "fldF name n scale = (\<lambda>(e, r). bindE (GETFLOAT n scale r) (\<lambda>(v, r'). Inr (put name v e, r')))"

definition fldFS :: "string \<Rightarrow> nat \<Rightarrow> rat \<Rightarrow> t_eph \<times> reader \<Rightarrow> error + (t_eph \<times> reader)" where
  "fldFS name n scale =
     (\<lambda>(e, r). bindE (GETFLOATSIGN n scale r) (\<lambda>(v, r'). Inr (put name v e, r')))"

definition fldFM :: "string \<Rightarrow> nat \<Rightarrow> rat \<Rightarrow> t_eph \<times> reader \<Rightarrow> error + (t_eph \<times> reader)" where
  "fldFM name n scale =
     (\<lambda>(e, r). bindE (GETFLOATSIGNM n scale r) (\<lambda>(v, r'). Inr (put name v e, r')))"

definition skp :: "nat \<Rightarrow> t_eph \<times> reader \<Rightarrow> error + (t_eph \<times> reader)" where
  "skp n = (\<lambda>(e, r). bindE (SKIPBITS n r) (\<lambda>r'. Inr (e, r')))"

fun steps :: "('s \<Rightarrow> error + 's) list \<Rightarrow> 's \<Rightarrow> error + 's" where
  "steps [] s = Inr s"
| "steps (f # fs) s = bindE (f s) (steps fs)"

definition new_eph :: "char \<Rightarrow> int \<Rightarrow> t_eph" where
  "new_eph sys n = \<lparr>eph_prn = \<lparr>system = sys, number = n\<rparr>, navType = [], eph_fields = []\<rparr>"

text \<open>The week test shared by 1019, 1044 and 1041:
  \<^verbatim>\<open>int numOfRollOvers = int(floor(t.gpsw()/1024.0)); week += (numOfRollOvers * 1024);
  if (eph._TOEweek > week + 1 || eph._TOEweek < week - 1) return false;\<close>\<close>

definition invalid_week :: "int \<Rightarrow> nat \<Rightarrow> bool" where
  "invalid_week TOEweek week =
     (let week' = int week + (TOEweek div 1024) * 1024
      in TOEweek > week' + 1 \<or> TOEweek < week' - 1)"

definition DecodeGPSEphemeris ::
  "env \<Rightarrow> byte list \<Rightarrow> nat \<Rightarrow> decoder \<Rightarrow> error + (bool \<times> decoder)" where
  "DecodeGPSEphemeris env data sz st =
     (if sz = 67 then
        bindE (SKIPBITS 12 (payload_reader data sz)) (\<lambda>r.
        bindE (GETBITS 6 r) (\<lambda>(i, r).
        bindE (GETBITS 10 r) (\<lambda>(week, r).
        bindE (steps [skp 4, fldU ''_L2Codes'' 2,
                      fldFS ''_IDOT'' 14 (R2R_PI / 2 ^ 30 / 2 ^ 13),
                      fldU ''_IODE'' 8] (new_eph (CHR ''G'') (int i), r)) (\<lambda>(eph, r).
        bindE (GETBITS 16 r) (\<lambda>(i, r).
        bindE (steps [fldFS ''_clock_driftrate'' 8 (1 / 2 ^ 30 / 2 ^ 25),
                      fldFS ''_clock_drift'' 16 (1 / 2 ^ 30 / 2 ^ 13),
                      fldFS ''_clock_bias'' 22 (1 / 2 ^ 30 / 2 ^ 1),
                      fldU ''_IODC'' 10,
                      fldFS ''_Crs'' 16 (1 / 2 ^ 5),
                      fldFS ''_Delta_n'' 16 (R2R_PI / 2 ^ 30 / 2 ^ 13),
                      fldFS ''_M0'' 32 (R2R_PI / 2 ^ 30 / 2 ^ 1),
                      fldFS ''_Cuc'' 16 (1 / 2 ^ 29),
                      fldF ''_e'' 32 (1 / 2 ^ 30 / 2 ^ 3),
                      fldFS ''_Cus'' 16 (1 / 2 ^ 29)]
                 (put ''_TOC'' (of_int (time_set env (i * 16 * 1000))) eph, r)) (\<lambda>(eph, r).
        bindE (GETFLOAT 32 (1 / 2 ^ 19) r) (\<lambda>(sqrt_A, r).
        if sqrt_A < 1000 then Inr (False, st) else
        bindE (GETBITS 16 r) (\<lambda>(i, r).
        let TOEweek = gpsw env (i * 16 * 1000) in
        if invalid_week TOEweek week then Inr (False, st) else
        bindE (steps [fldFS ''_Cic'' 16 (1 / 2 ^ 29),
                      fldFS ''_OMEGA0'' 32 (R2R_PI / 2 ^ 30 / 2 ^ 1),
                      fldFS ''_Cis'' 16 (1 / 2 ^ 29),
                      fldFS ''_i0'' 32 (R2R_PI / 2 ^ 30 / 2 ^ 1),
                      fldFS ''_Crc'' 16 (1 / 2 ^ 5),
                      fldFS ''_omega'' 32 (R2R_PI / 2 ^ 30 / 2 ^ 1),
                      fldFS ''_OMEGADOT'' 24 (R2R_PI / 2 ^ 30 / 2 ^ 13),
                      fldFS ''_TGD'' 8 (1 / 2 ^ 30 / 2 ^ 1),
                      fldU ''_health'' 6,
                      fldU ''_L2PFlag'' 1,
                      skp 1]
                 (put ''_TOEweek'' (of_int TOEweek)
                    (put ''_TOEsec'' (of_nat (i * 16)) (put ''_sqrt_A'' sqrt_A eph)), r))
          (\<lambda>(eph, r).
        Inr (True, st\<lparr>emitted := emitted st
                @ [newGPSEph ((put ''_TOT'' 999900000 eph)\<lparr>navType := ''LNAV''\<rparr>)]\<rparr>))))))))))
      else Inr (False, st))"

text \<open>In 1020 the norm tests \<^verbatim>\<open>NormFrobenius() < 1.0\<close> on position and velocity compare
  the sum of squares with 1, which is the same for a norm.\<close>

definition DecodeGLONASSEphemeris ::
  "env \<Rightarrow> byte list \<Rightarrow> nat \<Rightarrow> decoder \<Rightarrow> error + (bool \<times> decoder)" where
  "DecodeGLONASSEphemeris env data sz st =
     (if sz = 51 then
        bindE (SKIPBITS 12 (payload_reader data sz)) (\<lambda>r.
        bindE (GETBITS 6 r) (\<lambda>(sv, r).
        bindE (GETBITS 5 r) (\<lambda>(i, r).
        let frequency_number = int i - 7 in
        bindE (GETBITS 1 r) (\<lambda>(almanac_health, r).
        bindE (GETBITS 1 r) (\<lambda>(almanac_health_availablility_indicator, r).
        if almanac_health_availablility_indicator = 0 then Inr (False, st) else
        bindE (GETBITS 2 r) (\<lambda>(P1, r).
        bindE (GETBITS 5 r) (\<lambda>(h, r).
        bindE (GETBITS 6 r) (\<lambda>(m, r).
        bindE (GETBITS 1 r) (\<lambda>(s, r).
        let tk = int h * 60 * 60 + int m * 60 + int s * 30;
            tki = (if tk - 3 * 60 * 60 < 0 then tk - 3 * 60 * 60 + 86400 else tk - 3 * 60 * 60) in
        bindE (GETBITS 1 r) (\<lambda>(health, r).
        bindE (GETBITS 1 r) (\<lambda>(P2, r).
        bindE (GETBITS 7 r) (\<lambda>(tb, r).
        bindE (GETFLOATSIGNM 24 (1 / 2 ^ 20) r) (\<lambda>(x_velocity, r).
        bindE (GETFLOATSIGNM 27 (1 / 2 ^ 11) r) (\<lambda>(x_pos, r).
        bindE (GETFLOATSIGNM 5 (1 / 2 ^ 30) r) (\<lambda>(x_acceleration, r).
        bindE (GETFLOATSIGNM 24 (1 / 2 ^ 20) r) (\<lambda>(y_velocity, r).
        bindE (GETFLOATSIGNM 27 (1 / 2 ^ 11) r) (\<lambda>(y_pos, r).
        bindE (GETFLOATSIGNM 5 (1 / 2 ^ 30) r) (\<lambda>(y_acceleration, r).
        bindE (GETFLOATSIGNM 24 (1 / 2 ^ 20) r) (\<lambda>(z_velocity, r).
        bindE (GETFLOATSIGNM 27 (1 / 2 ^ 11) r) (\<lambda>(z_pos, r).
        bindE (GETFLOATSIGNM 5 (1 / 2 ^ 30) r) (\<lambda>(z_acceleration, r).
        let eph = foldl (\<lambda>e (n, v). put n v e) (new_eph (CHR ''R'') (int sv))
              [(''_frequency_number'', of_int frequency_number),
               (''_almanac_health'', of_nat almanac_health),
               (''_almanac_health_availablility_indicator'',
                  of_nat almanac_health_availablility_indicator),
               (''_P1'', of_nat P1), (''_tki'', of_int tki), (''_health'', of_nat health),
               (''_P2'', of_nat P2),
               (''_TOC'', of_int (time_setTk env (tb * 15 * 60 * 1000))),
               (''_x_velocity'', x_velocity), (''_x_pos'', x_pos),
               (''_x_acceleration'', x_acceleration),
               (''_y_velocity'', y_velocity), (''_y_pos'', y_pos),
               (''_y_acceleration'', y_acceleration),
               (''_z_velocity'', z_velocity), (''_z_pos'', z_pos),
               (''_z_acceleration'', z_acceleration)] in
        bindE (steps [fldU ''_P3'' 1,
                      fldFM ''_gamma'' 11 (1 / 2 ^ 30 / 2 ^ 10),
                      fldU ''_M_P'' 2,
                      fldU ''_M_l3'' 1,
                      fldFM ''_tau'' 22 (1 / 2 ^ 30),
                      fldFM ''_M_delta_tau'' 5 (1 / 2 ^ 30),
                      fldU ''_E'' 5,
                      fldU ''_M_P4'' 1,
                      fldU ''_M_FT'' 4] (eph, r)) (\<lambda>(eph, r).
        bindE (GETBITS 11 r) (\<lambda>(M_NT, r).
        if M_NT = 0 then Inr (False, st) else
        bindE (GETBITS 2 r) (\<lambda>(M_M, r).
        bindE (GETBITS 1 r) (\<lambda>(additional_data_availability, r).
        if additional_data_availability = 0 then Inr (False, st) else
        bindE (steps [fldU ''_NA'' 11,
                      fldFM ''_tauC'' 32 (1 / 2 ^ 30 / 2 ^ 1),
                      fldU ''_M_N4'' 5,
                      fldFM ''_M_tau_GPS'' 22 (1 / 2 ^ 30),
                      fldU ''_M_l5'' 1]
                 (put ''_additional_data_availability'' (of_nat additional_data_availability)
                    (put ''_M_M'' (of_nat M_M) (put ''_M_NT'' (of_nat M_NT) eph)), r))
          (\<lambda>(eph, r).
        if (x_pos * 1000)\<^sup>2 + (y_pos * 1000)\<^sup>2 + (z_pos * 1000)\<^sup>2 < 1 then Inr (False, st) else
        if (x_velocity * 1000)\<^sup>2 + (y_velocity * 1000)\<^sup>2 + (z_velocity * 1000)\<^sup>2 < 1
        then Inr (False, st) else
        bindE (GLOFreq_store (int sv - 1) (100 + frequency_number) (GLOFreq st)) (\<lambda>tbl.
        Inr (True, st\<lparr>GLOFreq := tbl,
                emitted := emitted st @ [newGlonassEph (eph\<lparr>navType := ''FDMA''\<rparr>)]\<rparr>)
        )))))))))))))))))))))))))))
      else Inr (False, st))"

definition DecodeQZSSEphemeris ::
  "env \<Rightarrow> byte list \<Rightarrow> nat \<Rightarrow> decoder \<Rightarrow> error + (bool \<times> decoder)" where
  "DecodeQZSSEphemeris env data sz st =
     (if sz = 67 then
        bindE (SKIPBITS 12 (payload_reader data sz)) (\<lambda>r.
        bindE (GETBITS 4 r) (\<lambda>(i, r).
        let eph = new_eph (CHR ''J'') (int i) in
        bindE (GETBITS 16 r) (\<lambda>(i, r).
        bindE (steps [fldFS ''_clock_driftrate'' 8 (1 / 2 ^ 30 / 2 ^ 25),
                      fldFS ''_clock_drift'' 16 (1 / 2 ^ 30 / 2 ^ 13),
                      fldFS ''_clock_bias'' 22 (1 / 2 ^ 30 / 2 ^ 1),
                      fldU ''_IODE'' 8,
                      fldFS ''_Crs'' 16 (1 / 2 ^ 5),
                      fldFS ''_Delta_n'' 16 (R2R_PI / 2 ^ 30 / 2 ^ 13),
                      fldFS ''_M0'' 32 (R2R_PI / 2 ^ 30 / 2 ^ 1),
                      fldFS ''_Cuc'' 16 (1 / 2 ^ 29),
                      fldF ''_e'' 32 (1 / 2 ^ 30 / 2 ^ 3),
                      fldFS ''_Cus'' 16 (1 / 2 ^ 29)]
                 (put ''_TOC'' (of_int (time_set env (i * 16 * 1000))) eph, r)) (\<lambda>(eph, r).
        bindE (GETFLOAT 32 (1 / 2 ^ 19) r) (\<lambda>(sqrt_A, r).
        if sqrt_A < 1000 then Inr (False, st) else
        bindE (GETBITS 16 r) (\<lambda>(i, r).
        let TOEweek = gpsw env (i * 16 * 1000) in
        bindE (steps [fldFS ''_Cic'' 16 (1 / 2 ^ 29),
                      fldFS ''_OMEGA0'' 32 (R2R_PI / 2 ^ 30 / 2 ^ 1),
                      fldFS ''_Cis'' 16 (1 / 2 ^ 29),
                      fldFS ''_i0'' 32 (R2R_PI / 2 ^ 30 / 2 ^ 1),
                      fldFS ''_Crc'' 16 (1 / 2 ^ 5),
                      fldFS ''_omega'' 32 (R2R_PI / 2 ^ 30 / 2 ^ 1),
                      fldFS ''_OMEGADOT'' 24 (R2R_PI / 2 ^ 30 / 2 ^ 13),
                      fldFS ''_IDOT'' 14 (R2R_PI / 2 ^ 30 / 2 ^ 13),
                      fldU ''_L2Codes'' 2]
                 (put ''_TOEweek'' (of_int TOEweek)
                    (put ''_TOEsec'' (of_nat (i * 16)) (put ''_sqrt_A'' sqrt_A eph)), r))
          (\<lambda>(eph, r).
        bindE (GETBITS 10 r) (\<lambda>(week, r).
        if invalid_week TOEweek week then Inr (False, st) else
        bindE (steps [skp 4,
                      fldU ''_health'' 6,
                      fldFS ''_TGD'' 8 (1 / 2 ^ 30 / 2 ^ 1),
                      fldU ''_IODC'' 10,
                      skp 1] (eph, r)) (\<lambda>(eph, r).
        Inr (True, st\<lparr>emitted := emitted st
                @ [newGPSEph ((put ''_TOT'' 999900000 eph)\<lparr>navType := ''LNAV''\<rparr>)]\<rparr>))))))))))
      else Inr (False, st))"

text \<open>In 1041 the health is 0, 1, 2 or 3 for the flag pairs (0,0), (0,1), (1,0), (1,1).\<close>

definition DecodeIRNSSEphemeris ::
  "env \<Rightarrow> byte list \<Rightarrow> nat \<Rightarrow> decoder \<Rightarrow> error + (bool \<times> decoder)" where
  "DecodeIRNSSEphemeris env data sz st =
     (if sz = 67 then
        bindE (SKIPBITS 12 (payload_reader data sz)) (\<lambda>r.
        bindE (GETBITS 6 r) (\<lambda>(i, r).
        let eph = new_eph (CHR ''I'') (int i) in
        bindE (GETBITS 10 r) (\<lambda>(week, r).
        bindE (steps [fldFS ''_clock_bias'' 22 (1 / 2 ^ 30 / 2 ^ 1),
                      fldFS ''_clock_drift'' 16 (1 / 2 ^ 30 / 2 ^ 13),
                      fldFS ''_clock_driftrate'' 8 (1 / 2 ^ 30 / 2 ^ 25),
                      skp 4] (eph, r)) (\<lambda>(eph, r).
        bindE (GETBITS 16 r) (\<lambda>(i, r).
        bindE (steps [fldFS ''_TGD'' 8 (1 / 2 ^ 30 / 2 ^ 1),
                      fldFS ''_Delta_n'' 22 (R2R_PI / 2 ^ 30 / 2 ^ 11)]
                 (put ''_TOC'' (of_int (time_set env (i * 16 * 1000))) eph, r)) (\<lambda>(eph, r).
        bindE (GETBITS 8 r) (\<lambda>(IODE, r).
        bindE (SKIPBITS 10 r) (\<lambda>r.
        bindE (GETBITS 1 r) (\<lambda>(L5Flag, r).
        bindE (GETBITS 1 r) (\<lambda>(SFlag, r).
        let eph = put ''_IODC'' (of_nat IODE) (put ''_IODE'' (of_nat IODE) eph);
            eph = (if L5Flag = 0 \<and> SFlag = 0 then put ''_health'' 0 eph
                   else if L5Flag = 0 \<and> SFlag = 1 then put ''_health'' 1 eph
                   else if L5Flag = 1 \<and> SFlag = 0 then put ''_health'' 2 eph
                   else if L5Flag = 1 \<and> SFlag = 1 then put ''_health'' 3 eph
                   else eph) in
        bindE (steps [fldFS ''_Cuc'' 15 (1 / 2 ^ 28),
                      fldFS ''_Cus'' 15 (1 / 2 ^ 28),
                      fldFS ''_Cic'' 15 (1 / 2 ^ 28),
                      fldFS ''_Cis'' 15 (1 / 2 ^ 28),
                      fldFS ''_Crc'' 15 (1 / 2 ^ 4),
                      fldFS ''_Crs'' 15 (1 / 2 ^ 4),
                      fldFS ''_IDOT'' 14 (R2R_PI / 2 ^ 30 / 2 ^ 13),
                      skp 2,
                      fldFS ''_M0'' 32 (R2R_PI / 2 ^ 30 / 2 ^ 1)] (eph, r)) (\<lambda>(eph, r).
        bindE (GETBITS 16 r) (\<lambda>(i, r).
        let TOEweek = gpsw env (i * 16 * 1000) in
        if invalid_week TOEweek week then Inr (False, st) else
        bindE (GETFLOAT 32 (1 / 2 ^ 30 / 2 ^ 3) r) (\<lambda>(e, r).
        bindE (GETFLOAT 32 (1 / 2 ^ 19) r) (\<lambda>(sqrt_A, r).
        if sqrt_A < 1000 then Inr (False, st) else
        bindE (steps [fldFS ''_OMEGA0'' 32 (R2R_PI / 2 ^ 30 / 2 ^ 1),
                      fldFS ''_omega'' 32 (R2R_PI / 2 ^ 30 / 2 ^ 1),
                      fldFS ''_OMEGADOT'' 22 (R2R_PI / 2 ^ 30 / 2 ^ 11),
                      fldFS ''_i0'' 32 (R2R_PI / 2 ^ 30 / 2 ^ 1),
                      skp 2]
                 (put ''_sqrt_A'' sqrt_A (put ''_e'' e
                    (put ''_TOEweek'' (of_int TOEweek) (put ''_TOEsec'' (of_nat (i * 16)) eph))), r))
          (\<lambda>(eph, r).
        Inr (True, st\<lparr>emitted := emitted st
                @ [newGPSEph ((put ''_TOT'' 999900000 eph)\<lparr>navType := ''LNAV''\<rparr>)]\<rparr>)
        )))))))))))))))
      else Inr (False, st))"

definition DecodeSBASEphemeris ::
  "env \<Rightarrow> byte list \<Rightarrow> nat \<Rightarrow> decoder \<Rightarrow> error + (bool \<times> decoder)" where
  "DecodeSBASEphemeris env data sz st =
     (if sz = 35 then
        bindE (SKIPBITS 12 (payload_reader data sz)) (\<lambda>r.
        bindE (GETBITS 6 r) (\<lambda>(i, r).
        let eph = new_eph (CHR ''S'') (20 + int i) in
        bindE (GETBITS 8 r) (\<lambda>(IODN, r).
        bindE (GETBITS 13 r) (\<lambda>(i, r).
        bindE (SKIPBITS 4 r) (\<lambda>r.
        bindE (GETFLOATSIGN 30 0.08 r) (\<lambda>(x_pos, r).
        bindE (GETFLOATSIGN 30 0.08 r) (\<lambda>(y_pos, r).
        bindE (GETFLOATSIGN 25 0.4 r) (\<lambda>(z_pos, r).
        if x_pos\<^sup>2 + y_pos\<^sup>2 + z_pos\<^sup>2 < 1 then Inr (False, st) else
        bindE (steps [fldFS ''_x_velocity'' 17 0.000625,
                      fldFS ''_y_velocity'' 17 0.000625,
                      fldFS ''_z_velocity'' 18 0.004,
                      fldFS ''_x_acceleration'' 10 0.0000125,
                      fldFS ''_y_acceleration'' 10 0.0000125,
                      fldFS ''_z_acceleration'' 10 0.0000625,
                      fldFS ''_agf0'' 12 (1 / 2 ^ 30 / 2 ^ 1),
                      fldFS ''_agf1'' 8 (1 / 2 ^ 30 / 2 ^ 10)]
                 (put ''_z_pos'' z_pos (put ''_y_pos'' y_pos (put ''_x_pos'' x_pos
                    (put ''_TOC'' (of_int (time_setTOD env (i * 16 * 1000)))
                       (put ''_IODN'' (of_nat IODN) eph)))), r)) (\<lambda>(eph, r).
        Inr (True, st\<lparr>emitted := emitted st
                @ [newSBASEph ((put ''_health'' 0 (put ''_TOT'' 999900000 eph))
                                 \<lparr>navType := ''SBASL1''\<rparr>)]\<rparr>))))))))))
      else Inr (False, st))"

text \<open>
  1045 and 1046. The source subtracts header and CRC, reads the message number and then
  tests \<^verbatim>\<open>(i == 1046 && size == 61) || (i == 1045 && size == 60)\<close>: at the test the two
  bytes holding the message number are loaded, so \<^verbatim>\<open>size\<close> is the payload length
  less 2.
\<close>

definition DecodeGalileoEphemeris ::
  "env \<Rightarrow> byte list \<Rightarrow> nat \<Rightarrow> decoder \<Rightarrow> error + (bool \<times> decoder)" where
  "DecodeGalileoEphemeris env data sz st =
     bindE (GETBITS 12 (payload_reader data sz)) (\<lambda>(i, r).
     if (i = 1046 \<and> unloaded_bytes r = 61) \<or> (i = 1045 \<and> unloaded_bytes r = 60) then
       let inav = (i = 1046) in
       bindE (GETBITS 6 r) (\<lambda>(i, r).
       let eph = new_eph (CHR ''E'') (int i) in
       bindE (GETBITS 12 r) (\<lambda>(TOEweek, r).
       bindE (steps [fldU ''_IODnav'' 10, skp 8,
                     fldFS ''_IDOT'' 14 (R2R_PI / 2 ^ 30 / 2 ^ 13)]
                (put ''_TOEweek'' (of_nat TOEweek) eph, r)) (\<lambda>(eph, r).
       bindE (GETBITS 14 r) (\<lambda>(i, r).
       let TOC = time_set_week env (1024 + TOEweek) (i * 60) in
       bindE (steps [fldFS ''_clock_driftrate'' 6 (1 / 2 ^ 30 / 2 ^ 29),
                     fldFS ''_clock_drift'' 21 (1 / 2 ^ 30 / 2 ^ 16),
                     fldFS ''_clock_bias'' 31 (1 / 2 ^ 30 / 2 ^ 4),
                     fldFS ''_Crs'' 16 (1 / 2 ^ 5),
                     fldFS ''_Delta_n'' 16 (R2R_PI / 2 ^ 30 / 2 ^ 13),
                     fldFS ''_M0'' 32 (R2R_PI / 2 ^ 30 / 2 ^ 1),
                     fldFS ''_Cuc'' 16 (1 / 2 ^ 29),
                     fldF ''_e'' 32 (1 / 2 ^ 30 / 2 ^ 3),
                     fldFS ''_Cus'' 16 (1 / 2 ^ 29)]
                (put ''_TOC'' (of_int TOC) eph, r)) (\<lambda>(eph, r).
       bindE (GETFLOAT 32 (1 / 2 ^ 19) r) (\<lambda>(sqrt_A, r).
       bindE (SKIPBITS 14 r) (\<lambda>r.
       bindE (steps [fldFS ''_Cic'' 16 (1 / 2 ^ 29),
                     fldFS ''_OMEGA0'' 32 (R2R_PI / 2 ^ 30 / 2 ^ 1),
                     fldFS ''_Cis'' 16 (1 / 2 ^ 29),
                     fldFS ''_i0'' 32 (R2R_PI / 2 ^ 30 / 2 ^ 1),
                     fldFS ''_Crc'' 16 (1 / 2 ^ 5),
                     fldFS ''_omega'' 32 (R2R_PI / 2 ^ 30 / 2 ^ 1),
                     fldFS ''_OMEGADOT'' 24 (R2R_PI / 2 ^ 30 / 2 ^ 13)]
                (put ''_TOEsec'' (gpssec env TOC) (put ''_sqrt_A'' sqrt_A eph), r)) (\<lambda>(eph, r).
       bindE (GETFLOATSIGN 10 (1 / 2 ^ 30 / 2 ^ 2) r) (\<lambda>(BGD_1_5A, r).
       let eph = put ''_BGD_1_5A'' BGD_1_5A eph in
       bindE (if inav then
                bindE (GETFLOATSIGN 10 (1 / 2 ^ 30 / 2 ^ 2) r) (\<lambda>(BGD_1_5B, r).
                bindE (GETBITS 2 r) (\<lambda>(E5bHS, r).
                bindE (GETBITS 1 r) (\<lambda>(e5bDataInValid, r).
                bindE (GETBITS 2 r) (\<lambda>(E1_bHS, r).
                bindE (GETBITS 1 r) (\<lambda>(e1DataInValid, r).
                if E5bHS \<noteq> E1_bHS then Inr None
                else if (BGD_1_5A = 0 \<and> \<bar>BGD_1_5B\<bar> > 1 / 10 ^ 9)
                      \<or> (BGD_1_5B = 0 \<and> \<bar>BGD_1_5A\<bar> > 1 / 10 ^ 9) then Inr None
                else Inr (Some ((foldl (\<lambda>e (n, v). put n v e) eph
                        [(''_E5aHS'', 0), (''_e5aDataInValid'', 0), (''_BGD_1_5B'', BGD_1_5B),
                         (''_E5bHS'', of_nat E5bHS), (''_e5bDataInValid'', of_nat e5bDataInValid),
                         (''_E1_bHS'', of_nat E1_bHS), (''_e1DataInValid'', of_nat e1DataInValid)])
                        \<lparr>navType := ''INAF''\<rparr>)))))))
              else
                bindE (GETBITS 2 r) (\<lambda>(E5aHS, r).
                bindE (GETBITS 1 r) (\<lambda>(e5aDataInValid, r).
                Inr (Some ((foldl (\<lambda>e (n, v). put n v e) eph
                        [(''_BGD_1_5B'', 0), (''_E5bHS'', 0), (''_E1_bHS'', 0),
                         (''_e1DataInValid'', 0), (''_e5bDataInValid'', 0),
                         (''_E5aHS'', of_nat E5aHS), (''_e5aDataInValid'', of_nat e5aDataInValid)])
                        \<lparr>navType := ''FNAV''\<rparr>)))))
         (\<lambda>res.
       case res of
         None \<Rightarrow> Inr (False, st)
       | Some eph \<Rightarrow>
           if sqrt_A < 1000 then Inr (False, st)
           else Inr (True, st\<lparr>emitted := emitted st
                  @ [newGalileoEph (put ''_TOT'' 999900000 eph)]\<rparr>)))))))))))
     else Inr (False, st))"

definition DecodeBDSEphemeris ::
  "env \<Rightarrow> byte list \<Rightarrow> nat \<Rightarrow> decoder \<Rightarrow> error + (bool \<times> decoder)" where
  "DecodeBDSEphemeris env data sz st =
     (if sz = 70 then
        bindE (SKIPBITS 12 (payload_reader data sz)) (\<lambda>r.
        bindE (GETBITS 6 r) (\<lambda>(i, r).
        let eph = new_eph (CHR ''C'') (int i) in
        bindE (GETBITS 13 r) (\<lambda>(BDTweek, r).
        bindE (steps [skp 4,
                      fldFS ''_IDOT'' 14 (R2R_PI / 2 ^ 30 / 2 ^ 13),
                      fldU ''_AODE'' 5] (put ''_BDTweek'' (of_nat BDTweek) eph, r)) (\<lambda>(eph, r).
        bindE (GETBITS 17 r) (\<lambda>(i, r).
        bindE (steps [fldFS ''_clock_driftrate'' 11 (1 / 2 ^ 30 / 2 ^ 30 / 2 ^ 6),
                      fldFS ''_clock_drift'' 22 (1 / 2 ^ 30 / 2 ^ 20),
                      fldFS ''_clock_bias'' 24 (1 / 2 ^ 30 / 2 ^ 3),
                      fldU ''_AODC'' 5,
                      fldFS ''_Crs'' 18 (1 / 2 ^ 6),
                      fldFS ''_Delta_n'' 16 (R2R_PI / 2 ^ 30 / 2 ^ 13),
                      fldFS ''_M0'' 32 (R2R_PI / 2 ^ 30 / 2 ^ 1),
                      fldFS ''_Cuc'' 18 (1 / 2 ^ 30 / 2 ^ 1),
                      fldF ''_e'' 32 (1 / 2 ^ 30 / 2 ^ 3),
                      fldFS ''_Cus'' 18 (1 / 2 ^ 30 / 2 ^ 1)]
                 (put ''_TOC'' (of_int (time_setBDS_week env BDTweek (i * 8))) eph, r))
          (\<lambda>(eph, r).
        bindE (GETFLOAT 32 (1 / 2 ^ 19) r) (\<lambda>(sqrt_A, r).
        if sqrt_A < 1000 then Inr (False, st) else
        bindE (GETBITS 17 r) (\<lambda>(i, r).
        bindE (steps [fldFS ''_Cic'' 18 (1 / 2 ^ 30 / 2 ^ 1),
                      fldFS ''_OMEGA0'' 32 (R2R_PI / 2 ^ 30 / 2 ^ 1),
                      fldFS ''_Cis'' 18 (1 / 2 ^ 30 / 2 ^ 1)]
                 (put ''_TOE'' (of_int (time_setBDS_week env BDTweek (i * 8)))
                    (put ''_TOEsec'' (of_nat (i * 8)) (put ''_sqrt_A'' sqrt_A eph)), r))
          (\<lambda>(eph, r).
        bindE (GETFLOATSIGN 32 (R2R_PI / 2 ^ 30 / 2 ^ 1) r) (\<lambda>(i0, r).
        bindE (steps [fldFS ''_Crc'' 18 (1 / 2 ^ 6),
                      fldFS ''_omega'' 32 (R2R_PI / 2 ^ 30 / 2 ^ 1),
                      fldFS ''_OMEGADOT'' 24 (R2R_PI / 2 ^ 30 / 2 ^ 13),
                      fldFS ''_TGD1'' 10 0.0000000001,
                      fldFS ''_TGD2'' 10 0.0000000001,
                      fldU ''_SatH1'' 1] (put ''_i0'' i0 eph, r)) (\<lambda>(eph, r).
        Inr (True, st\<lparr>emitted := emitted st
                @ [newBDSEph ((put ''_TOT'' 999900000 eph)
                     \<lparr>navType := (if i0 > 10 / 180 * M_PI then ''D1'' else ''D2'')\<rparr>)]\<rparr>)
        )))))))))))
      else Inr (False, st))"

section \<open>Station metadata (1005-1008, 1033)\<close>

text \<open>
  Modelled from the spec: \<^verbatim>\<open>GETSTRING(n, s)\<close> of \<^verbatim>\<open>bits.h\<close> reads a length-prefixed
  string, an 8-bit length and that many bytes; \<open>s\<close> points into the message.
\<close>

fun GETBYTES :: "nat \<Rightarrow> reader \<Rightarrow> error + (byte list \<times> reader)" where
  "GETBYTES 0 r = Inr ([], r)"
| "GETBYTES (Suc n) r =
     bindE (GETBITS 8 r) (\<lambda>(b, r'). bindE (GETBYTES n r') (\<lambda>(bs, r''). Inr (of_nat b # bs, r'')))"

definition GETSTRING :: "reader \<Rightarrow> error + ((nat \<times> byte list) \<times> reader)" where
  "GETSTRING r0 = bindE (GETBITS 8 r0) (\<lambda>(n, r). bindE (GETBYTES n r) (\<lambda>(s, r').
     Inr ((n, s), r')))"

text \<open>\<^verbatim>\<open>strncmp(a, b, n) == 0\<close> on byte strings: equal up to \<open>n\<close> bytes or up to a
  common NUL. The first argument is given with its terminating NUL, the second is the
  memory from the pointer on.\<close>

fun strncmp_eq :: "nat \<Rightarrow> byte list \<Rightarrow> byte list \<Rightarrow> bool" where
  "strncmp_eq n (x # a) (y # b) = (n = 0 \<or> (x = y \<and> (x = 0 \<or> strncmp_eq (n - 1) a b)))"
| "strncmp_eq n a b = (n = 0)"

text \<open>
  When the antenna descriptor is compared, \<^verbatim>\<open>recnum\<close> still holds its initial \<open>-1\<close>, which
  \<^verbatim>\<open>strncmp\<close> takes as the largest \<^verbatim>\<open>size_t\<close>. The antenna string starts at byte 7
  of the block (header, 24 bits, length byte); the receiver string starts behind the
  antenna string, the setup byte and the antenna serial number.
\<close>

definition DecodeAntennaReceiver :: "byte list \<Rightarrow> nat \<Rightarrow> decoder \<Rightarrow> error + (bool \<times> decoder)" where
  "DecodeAntennaReceiver data sz st =
     bindE (GETBITS 12 (payload_reader data sz)) (\<lambda>(ty, r).
     bindE (SKIPBITS 12 r) (\<lambda>r.
     bindE (GETSTRING r) (\<lambda>((antnum, antenna), r).
     let st1 = (if antnum < 265 \<and>
                   (antType st = [] \<or>
                    \<not> strncmp_eq (2 ^ 64 - 1) (descriptor (last (antType st)) @ [0]) (drop 7 data))
                then st\<lparr>antType := antType st @ [\<lparr>descriptor = antenna, serialnumber = []\<rparr>]\<rparr>
                else st) in
     bindE (SKIPBITS 8 r) (\<lambda>r.
     bindE (if ty = 1008 \<or> ty = 1033 then
              bindE (GETSTRING r) (\<lambda>((antsernum, antserialnum), r).
              Inr ((st1\<lparr>antType := (antType st1)[length (antType st1) - 1 :=
                           (last (antType st1))\<lparr>serialnumber := antserialnum\<rparr>]\<rparr>,
                    antsernum + 1), r))
            else Inr ((st1, 0), r)) (\<lambda>((st2, serlen), r).
     if ty = 1033 then
       bindE (GETSTRING r) (\<lambda>((recnum, receiver), r).
       bindE (GETSTRING r) (\<lambda>((recfirnum, recfirmware), r).
       bindE (GETSTRING r) (\<lambda>((recsernum, recserialnum), r).
       Inr (True,
         if recnum < 265 \<and>
            (recType st2 = [] \<or>
             \<not> strncmp_eq recnum (rec_descriptor (last (recType st2)) @ [0])
                  (drop (7 + antnum + 1 + serlen + 1) data))
         then st2\<lparr>recType := recType st2 @
                [\<lparr>rec_descriptor = receiver, rec_firmware = recfirmware,
                  rec_serialnumber = recserialnum\<rparr>]\<rparr>
         else st2))))
     else Inr (True, st2))))))"

definition DecodeAntennaPosition :: "byte list \<Rightarrow> nat \<Rightarrow> decoder \<Rightarrow> error + (bool \<times> decoder)" where
  "DecodeAntennaPosition data sz st =
     bindE (GETBITS 12 (payload_reader data sz)) (\<lambda>(ty, r).
     bindE (SKIPBITS 22 r) (\<lambda>r.
     bindE (GETBITSSIGN 38 r) (\<lambda>(x, r).
     bindE (SKIPBITS 2 r) (\<lambda>r.
     bindE (GETBITSSIGN 38 r) (\<lambda>(y, r).
     bindE (SKIPBITS 2 r) (\<lambda>r.
     bindE (GETBITSSIGN 38 r) (\<lambda>(z, r).
     let p = \<lparr>xx = of_int x * (1 / 10 ^ 4), yy = of_int y * (1 / 10 ^ 4),
              zz = of_int z * (1 / 10 ^ 4), height = 0, height_f = False, message = ty\<rparr> in
     if ty = 1006 then
       bindE (GETBITS 16 r) (\<lambda>(h, r).
       Inr (True, st\<lparr>antList := antList st
              @ [p\<lparr>height := of_nat h * (1 / 10 ^ 4), height_f := True\<rparr>]\<rparr>))
     else Inr (True, st\<lparr>antList := antList st @ [p]\<rparr>))))))))"

section \<open>Framer\<close>

text \<open>\<^verbatim>\<open>CRC24\<close>: for each byte, \<^verbatim>\<open>crc ^= byte << 16\<close> and then eight times
  \<^verbatim>\<open>crc <<= 1; if (crc & 0x1000000) crc ^= 0x01864cfb;\<close> on a \<^verbatim>\<open>uint32_t\<close>.\<close>

definition crc_shift :: "32 word \<Rightarrow> 32 word" where
  "crc_shift crc = (let c = push_bit 1 crc in if c AND 0x1000000 \<noteq> 0 then c XOR 0x01864cfb else c)"

fun crc_bits :: "nat \<Rightarrow> 32 word \<Rightarrow> 32 word" where
  "crc_bits 0 crc = crc"
| "crc_bits (Suc ii) crc = crc_bits ii (crc_shift crc)"

definition crc_byte :: "32 word \<Rightarrow> byte \<Rightarrow> 32 word" where
  "crc_byte crc b = crc_bits 8 (crc XOR push_bit 16 (ucast b))"

definition CRC24 :: "nat \<Rightarrow> byte list \<Rightarrow> 32 word" where
  "CRC24 sz buf = foldl crc_byte 0 (take sz buf)"

text \<open>
  The scan loop of \<^verbatim>\<open>GetMessage\<close> over the bytes in use, from offset \<open>m\<close>. The result is
  the final \<open>m\<close> with \<^verbatim>\<open>_BlockSize\<close>, \<^verbatim>\<open>_SkipBytes\<close> and \<^verbatim>\<open>_NeedBytes\<close> as the loop
  leaves them. \<^verbatim>\<open>_BlockSize\<close> is assigned at every \<open>0xD3\<close> met.
\<close>

definition frame_length :: "byte list \<Rightarrow> nat \<Rightarrow> nat" where
  "frame_length msg m = push_bit 8 (unat (msg ! (m + 1) AND 3)) OR unat (msg ! (m + 2))"

definition frame_crc :: "byte list \<Rightarrow> nat \<Rightarrow> nat \<Rightarrow> 32 word" where
  "frame_crc msg m bsz =
     push_bit 16 (ucast (msg ! (m + 3 + bsz))) OR push_bit 8 (ucast (msg ! (m + 3 + bsz + 1)))
       OR ucast (msg ! (m + 3 + bsz + 2))"

function GetMessage_scan :: "byte list \<Rightarrow> nat \<Rightarrow> nat \<Rightarrow> nat \<times> nat \<times> nat \<times> nat" where
  "GetMessage_scan msg m bsz =
     (if 3 \<le> length msg - m then
        if msg ! m = 0xD3 then
          if frame_length msg m + 6 \<le> length msg - m then
            if frame_crc msg m (frame_length msg m) = CRC24 (frame_length msg m + 3) (drop m msg)
            then (m, frame_length msg m + 6, frame_length msg m + 6, 0)
            else GetMessage_scan msg (m + 1) (frame_length msg m)
          else (m, frame_length msg m, 0, frame_length msg m)
        else GetMessage_scan msg (m + 1) bsz
      else (m, bsz, 0, 0))"
  by pat_completeness auto
termination
  by (relation "measure (\<lambda>(msg, m, bsz). length msg - m)") auto

declare GetMessage_scan.simps [simp del]

text \<open>
  \<^verbatim>\<open>GetMessage\<close>. After the scan, \<^verbatim>\<open>if (e - m < 3) _NeedBytes = 3\<close>; then the bytes
  before \<open>m\<close> are dropped: \<^verbatim>\<open>memmove\<close> moves the rest to the front (when \<open>m\<close> is
  neither 0 nor the end) and \<^verbatim>\<open>_MessageSize -= i\<close>. In each of the three cases the array
  then holds the bytes from \<open>m\<close> on, followed by the last \<open>m\<close> bytes it held before, then
  by what was beyond the bytes in use. The message number is read from bytes 3 and 4 of the
  array, whether or not they are in use.
\<close>

definition GetMessage :: "decoder \<Rightarrow> nat \<times> decoder" where
  "GetMessage st =
     (let msg = Message st;
          (m, bsz, skip, need) = GetMessage_scan msg (SkipBytes st) (BlockSize st);
          need' = (if length msg - m < 3 then 3 else need);
          st' = st\<lparr>Message := drop m msg,
                   Stale := drop (length msg - m) msg @ Stale st,
                   NeedBytes := need', SkipBytes := skip, BlockSize := bsz\<rparr>;
          arr = Message st' @ Stale st'
      in (if need' = 0 then push_bit 4 (unat (arr ! 3)) OR drop_bit 4 (unat (arr ! 4)) else 0,
          st'))"

section \<open>Dispatcher and entry point\<close>

text \<open>
  A decoder that fails leaves no trace: its frame is discarded and counts as not decoded.
  The decoders are handed the array \<^verbatim>\<open>_Message\<close> and \<^verbatim>\<open>_BlockSize\<close>.
\<close>

definition run :: "decoder \<Rightarrow> error + (bool \<times> decoder) \<Rightarrow> bool \<times> decoder" where
  "run st res = (case res of Inl e \<Rightarrow> (False, st) | Inr x \<Rightarrow> x)"

definition dispatch :: "env \<Rightarrow> nat \<Rightarrow> decoder \<Rightarrow> bool \<times> decoder" where
  "dispatch env ident st =
     (let data = Message st @ Stale st; sz = BlockSize st in
      if (ident \<ge> 1057 \<and> ident \<le> 1068) \<or> (ident \<ge> 1240 \<and> ident \<le> 1270) \<or> ident = 4076
      then (coDecode env (take sz data), st)
      else if ident \<ge> 1070 \<and> ident \<le> 1237 then run st (DecodeRTCM3MSM env data sz st)
      else if ident = 1001 \<or> ident = 1003
      then (False, st\<lparr>emitted := emitted st @ [newMessage ident]\<rparr>)
      else if ident = 1002 \<or> ident = 1004 then run st (DecodeRTCM3GPS env data sz st)
      else if ident = 1009 \<or> ident = 1011
      then (False, st\<lparr>emitted := emitted st @ [newMessage ident]\<rparr>)
      else if ident = 1010 \<or> ident = 1012 then run st (DecodeRTCM3GLONASS env data sz st)
      else if ident = 1019 then run st (DecodeGPSEphemeris env data sz st)
      else if ident = 1020 then run st (DecodeGLONASSEphemeris env data sz st)
      else if ident = 1043 then run st (DecodeSBASEphemeris env data sz st)
      else if ident = 1044 then run st (DecodeQZSSEphemeris env data sz st)
      else if ident = 1041 then run st (DecodeIRNSSEphemeris env data sz st)
      else if ident = 1045 \<or> ident = 1046 then run st (DecodeGalileoEphemeris env data sz st)
      else if ident = 1042 then run st (DecodeBDSEphemeris env data sz st)
      else if ident = 1007 \<or> ident = 1008 \<or> ident = 1033
      then (False, snd (run st (DecodeAntennaReceiver data sz st)))
      else if ident = 1005 \<or> ident = 1006
      then (False, snd (run st (DecodeAntennaPosition data sz st)))
      else (False, st))"

text \<open>
  \<^verbatim>\<open>while ((id = GetMessage())) { _typeList.push_back(id); ... }\<close>. The loop need not end,
  so it runs on fuel: \<open>None\<close> when the fuel is used up.
\<close>

fun drain :: "nat \<Rightarrow> env \<Rightarrow> bool \<Rightarrow> decoder \<Rightarrow> (bool \<times> decoder) option" where
  "drain 0 env decoded st = None"
| "drain (Suc fuel) env decoded st =
     (case GetMessage st of
        (ident, st1) \<Rightarrow>
          if ident = 0 then Some (decoded, st1)
          else (case dispatch env ident (st1\<lparr>typeList := typeList st1 @ [ident]\<rparr>) of
                  (d, st2) \<Rightarrow> drain fuel env (decoded \<or> d) st2))"

datatype t_irc = success | failure

text \<open>
  The outer loop of \<^verbatim>\<open>Decode\<close>:
  \<^verbatim>\<open>while (bufLen && _MessageSize < sizeof(_Message))\<close> copies as much input as fits behind
  the bytes in use and drains the messages. The fuel is given anew to each drain.
\<close>

function Decode_loop ::
  "nat \<Rightarrow> env \<Rightarrow> byte list \<Rightarrow> bool \<Rightarrow> decoder \<Rightarrow> (bool \<times> decoder) option" where
  "Decode_loop fuel env buffer decoded st =
     (if buffer \<noteq> [] \<and> length (Message st) < 2048 then
        (case drain fuel env decoded
                (st\<lparr>Message := Message st
                                 @ take (min (2048 - length (Message st)) (length buffer)) buffer,
                    Stale := drop (min (2048 - length (Message st)) (length buffer)) (Stale st)\<rparr>)
         of None \<Rightarrow> None
          | Some (d, st') \<Rightarrow>
              Decode_loop fuel env
                (drop (min (2048 - length (Message st)) (length buffer)) buffer) d st')
      else Some (decoded, st))"
  by pat_completeness auto
termination
  by (relation "measure (\<lambda>(fuel, env, buffer, decoded, st). length buffer)") auto

declare Decode_loop.simps [simp del]

definition Decode :: "nat \<Rightarrow> env \<Rightarrow> byte list \<Rightarrow> decoder \<Rightarrow> (t_irc \<times> decoder) option" where
  "Decode fuel env buffer st =
     (case Decode_loop fuel env buffer False st of
        None \<Rightarrow> None
      | Some (decoded, st') \<Rightarrow> Some (if decoded then success else failure, st'))"

section \<open>Test vectors\<close>

text \<open>\<open>bits n v\<close> is the \<open>n\<close>-bit field holding \<open>v\<close>, most significant bit first; test
  inputs are written as sequences of fields.\<close>

fun bits :: "nat \<Rightarrow> nat \<Rightarrow> bool list" where
  "bits 0 v = []"
| "bits (Suc n) v = bits n (v div 2) @ [odd v]"

text \<open>A collaborator environment in which instants are the raw time fields, and a decoder
  that has seen nothing yet.\<close>

definition env0 :: env where
  "env0 = \<lparr> time_set = int, time_setBDS = int, time_setTk = int, time_setTOD = int,
            time_set_week = (\<lambda>w s. int (w * 604800 + s)),
            time_setBDS_week = (\<lambda>w s. int (w * 604800 + s)),
            gpsw = (\<lambda>_. 0), gpssec = (\<lambda>t. of_int (t mod 604800)),
            lti2sec = (\<lambda>_ _. 0), coDecode = (\<lambda>_. False) \<rparr>"

definition st0 :: decoder where
  "st0 = \<lparr> Message = [], Stale = replicate 2048 0, NeedBytes = 0, SkipBytes = 0, BlockSize = 0,
     CurrentTime = None, CurrentObsList = [], obsList = [], GLOFreq = replicate 64 0,
     typeList = [], antType = [], recType = [], antList = [], emitted = [] \<rparr>"

text \<open>A 1012 frame with one satellite whose 6-bit satellite field is 0, and a 1020 frame
  of 51 bytes, passing every validity test, whose satellite field is 0.\<close>

definition f1012_sv0 :: "byte list" where
  "f1012_sv0 = [0xD3, 0x00, 0x18, 0x3F, 0x40, 0x00, 0x00, 0x00, 0x7D, 0x00, 0x80, 0x03, 0x83,
     0xD0, 0x90, 0x00, 0x00, 0x00, 0x00, 0x0A, 0x00, 0x00, 0x00, 0x00, 0x00, 0x01, 0x40,
     0x6B, 0xED, 0xCA]"

definition f1020_sv0 :: "byte list" where
  "f1020_sv0 = [0xD3, 0x00, 0x2D, 0x3F, 0xC0, 0x0F, 0x83, 0x00, 0x01, 0x10, 0x00, 0x00, 0x00,
     0x01, 0x00, 0x00, 0x10, 0x00, 0x00, 0x00, 0x01, 0x00, 0x00, 0x10, 0x00, 0x00, 0x00,
     0x01, 0x00, 0x00, 0x00, 0x00, 0x00, 0x00, 0x00, 0x00, 0x00, 0x02, 0x40, 0x00, 0x00,
     0x00, 0x00, 0x00, 0x00, 0x00, 0x00, 0x00, 0x07, 0x3E, 0xA2]"

text \<open>A 1043 frame of 35 bytes for the satellite field 4, with a position away from the
  origin.\<close>

definition f1043 :: "byte list" where
  "f1043 = [0xD3, 0x00, 0x1D, 0x41, 0x31, 0x02, 0x40, 0xC8, 0x40, 0x00, 0x01, 0xF4, 0x7F,
     0xFF, 0xF0, 0x60, 0x00, 0x0B, 0xB8, 0x00, 0x00, 0x80, 0x00, 0x80, 0x00, 0x30, 0x00,
     0x00, 0x00, 0x00, 0x14, 0x04, 0x4A, 0xD6, 0xDA]"

section \<open>Auxiliary notions\<close>

text \<open>A field step keeps the satellite of the record it extends.\<close>

definition keeps_prn :: "(t_eph \<times> reader \<Rightarrow> error + (t_eph \<times> reader)) \<Rightarrow> bool" where
  "keeps_prn f = (\<forall>e r e' r'. f (e, r) = Inr (e', r') \<longrightarrow> eph_prn e' = eph_prn e)"

text \<open>The observations a decoder holds: those staged and those flushed.\<close>

definition held_obs :: "decoder \<Rightarrow> t_satObs set" where
  "held_obs st = set (CurrentObsList st) \<union> (\<Union>l \<in> set (obsList st). set l)"

text \<open>A GPS MSM4 frame (1074) with 4 satellites and 25 signals, that is 100 cells, all
  absent; sync flag 0.\<close>

definition f1074_over :: "byte list" where
  "f1074_over = [0xD3, 0x00, 0x2B, 0x43, 0x20, 0x00, 0x00, 0x00, 0x4E, 0x20, 0x00, 0x00, 0x78,
     0x00, 0x00, 0x00, 0x00, 0x00, 0x00, 0x00, 0x7F, 0xFF, 0xFF, 0xC0, 0x00, 0x00, 0x00,
     0x00, 0x00, 0x00, 0x00, 0x00, 0x00, 0x00, 0x00, 0x00, 0x02, 0x32, 0x3A, 0x42, 0x48,
     0x00, 0x32, 0x19, 0x09, 0x60, 0x26, 0x9D, 0xE3]"

text \<open>Satellite and signal data without extended info, and a cell walk standing at
  GLONASS satellite 2 (mask bit 62) and signal 1C (mask bit 30).\<close>

definition sa0 :: msm_sat where
  "sa0 = \<lparr>rrmod = (\<lambda>_. 0), rrint = (\<lambda>_. 70), rdop = (\<lambda>_. 0), extsat = (\<lambda>_. 15)\<rparr>"

definition sg0 :: msm_sig where
  "sg0 = \<lparr>ll = (\<lambda>_. 0), cnr = (\<lambda>_. 40), cp = (\<lambda>_. 0), psr = (\<lambda>_. 0), dop = (\<lambda>_. 0)\<rparr>"

definition w_glo :: "int list \<Rightarrow> msm_walk" where
  "w_glo tbl = \<lparr>w_i = 62, w_j = 30, w_numsat = 0,
     w_obs = \<lparr>prn = \<lparr>system = CHR ''R'', number = 2\<rparr>, time = 0, type = 1084, obs = []\<rparr>,
     w_list = [], w_tbl = tbl\<rparr>"

text \<open>A satellite observation with at least one band, each band carrying a two-character
  observation code.\<close>

definition banded :: "t_satObs \<Rightarrow> bool" where
  "banded ob = (obs ob \<noteq> [] \<and> (\<forall>f \<in> set (obs ob). length (rnxType2ch f) = 2))"

text \<open>The invariant of the MSM cell walk over the list \<open>lst\<close> it started from: the walk
  has only appended observations with a band, and the observation under construction has
  only bands with a two-character code.\<close>

definition walk_inv :: "t_satObs list \<Rightarrow> msm_walk \<Rightarrow> bool" where
  "walk_inv lst w =
     ((\<exists>new. w_list w = lst @ new \<and> (\<forall>ob \<in> set new. banded ob))
      \<and> (\<forall>f \<in> set (obs (w_obs w)). length (rnxType2ch f) = 2))"

text \<open>A 1002 frame for GPS satellite 5: one L1 observation, sync flag 1.\<close>

definition f1002 :: "byte list" where
  "f1002 = [0xD3, 0x00, 0x12, 0x3E, 0xA0, 0x00, 0x00, 0x00, 0x0F, 0xA2, 0x10, 0x14, 0x1E,
     0x84, 0x80, 0x00, 0x00, 0x00, 0x00, 0x28, 0x00, 0xB7, 0xFF, 0x75]"

text \<open>The epoch-flush and sync-flag contract in the words of the specification, for a
  frame with epoch time \<open>t\<close> and sync flag \<open>syncf\<close> that stages the observations \<open>new\<close>:
  a valid and different \<^verbatim>\<open>_CurrentTime\<close> flushes the staged list first; a clear sync flag
  flushes afterwards and invalidates \<^verbatim>\<open>_CurrentTime\<close>.\<close>

definition epoch_contract :: "int \<Rightarrow> nat \<Rightarrow> t_satObs list \<Rightarrow> decoder \<Rightarrow> decoder \<Rightarrow> bool" where
  "epoch_contract t syncf new st st' =
     (let flush = (CurrentTime st \<noteq> None \<and> CurrentTime st \<noteq> Some t);
          staged = (if flush then [] else CurrentObsList st) @ new;
          flushed = obsList st @ (if flush then [CurrentObsList st] else [])
      in if syncf = 0
         then obsList st' = flushed @ [staged] \<and> CurrentObsList st' = [] \<and> CurrentTime st' = None
         else obsList st' = flushed \<and> CurrentObsList st' = staged \<and> CurrentTime st' = Some t)"

text \<open>An SBAS MSM4 frame (1104), epoch time 2000, sync flag 0, one satellite and one
  signal.\<close>

definition f1104 :: "byte list" where
  "f1104 = [0xD3, 0x00, 0x1E, 0x45, 0x00, 0x00, 0x00, 0x00, 0x1F, 0x40, 0x00, 0x00, 0x40,
     0x00, 0x00, 0x00, 0x00, 0x00, 0x00, 0x00, 0x20, 0x00, 0x00, 0x00, 0x5E, 0x20, 0x00, 0x0C,
     0x80, 0x00, 0x64, 0x1A, 0x80, 0xF8, 0xAC, 0x9D]"

text \<open>The decoder after the frame \<open>f1002\<close>: one observation staged for the epoch 1000.\<close>

definition st1002 :: decoder where
  "st1002 = snd (projr (DecodeRTCM3GPS env0 f1002 24 st0))"

text \<open>A GPS MSM4 frame (1074) with 4 satellites and 25 signals, that is 100 cells, of which
  eight are present: the signals 1C and 2C of each satellite, with their signal data.
  Epoch time 5000, sync flag 0.\<close>

definition f1074_full :: "byte list" where
  "f1074_full = [0xD3, 0x00, 0x5B, 0x43, 0x20, 0x00, 0x00, 0x00, 0x4E, 0x20, 0x00, 0x00, 0x78,
     0x00, 0x00, 0x00, 0x00, 0x00, 0x00, 0x00, 0x7F, 0xFF, 0xFF, 0xC0, 0x20, 0x80, 0x00, 0x10,
     0x40, 0x00, 0x08, 0x20, 0x00, 0x04, 0x10, 0x00, 0x02, 0x32, 0x3A, 0x42, 0x48, 0x00, 0x32,
     0x19, 0x09, 0x60, 0x06, 0x40, 0x0C, 0xA0, 0x19, 0x80, 0x33, 0x80, 0x68, 0x00, 0xD2, 0x01,
     0xA8, 0x03, 0x58, 0x00, 0x19, 0x00, 0x00, 0x64, 0x80, 0x01, 0x94, 0x00, 0x06, 0x58, 0x00,
     0x19, 0x80, 0x00, 0x66, 0x80, 0x01, 0x9C, 0x00, 0x06, 0x79, 0x99, 0x99, 0x99, 0x98, 0x05,
     0x14, 0xD5, 0x5D, 0x96, 0xDD, 0x78, 0xA8, 0xAA, 0x45]"

















section \<open>Properties: bit reader\<close>

lemma length_bits [simp]: "length (bits n v) = n"
  by (induction n arbitrary: v) auto

lemma bits_numeral: "bits (numeral k) v = bits (pred_numeral k) (v div 2) @ [odd v]"
  by (simp add: numeral_eq_Suc)

lemma bits_to_nat_snoc: "bits_to_nat (xs @ [b]) = 2 * bits_to_nat xs + (if b then 1 else 0)"
  by (simp add: bits_to_nat_def)

lemma bits_to_nat_bits [simp]: "bits_to_nat (bits n v) = v mod 2 ^ n"
proof (induction n arbitrary: v)
  case 0
  then show ?case by (simp add: bits_to_nat_def)
next
  case (Suc n)
  have "v mod (2 * 2 ^ n) = 2 * ((v div 2) mod 2 ^ n) + v mod 2"
    by (simp add: mod_mult2_eq mult.commute)
  then show ?case using Suc by (auto simp: bits_to_nat_snoc odd_iff_mod_2_eq_one)
qed

lemma bits_to_nat_less: "bits_to_nat xs < 2 ^ length xs"
proof (induction xs rule: rev_induct)
  case Nil
  then show ?case by (simp add: bits_to_nat_def)
next
  case (snoc b xs)
  then show ?case by (simp add: bits_to_nat_snoc)
qed

lemma bindE_Inr [simp]: "bindE (Inr a) f = f a"
  by (simp add: bindE_def)

lemma bindE_Inl [simp]: "bindE (Inl e) f = Inl e"
  by (simp add: bindE_def)

lemma bindE_eq_Inr:
  "(bindE m f = Inr y) = (\<exists>a. m = Inr a \<and> f a = Inr y)"
  by (cases m) auto

lemma GETBITS_append [simp]: "length xs = n \<Longrightarrow> GETBITS n (xs @ r) = Inr (bits_to_nat xs, r)"
  by (simp add: GETBITS_def)

lemma GETBITS_exact: "length xs = n \<Longrightarrow> GETBITS n xs = Inr (bits_to_nat xs, [])"
  by (simp add: GETBITS_def)

lemma SKIPBITS_exact: "length xs = n \<Longrightarrow> SKIPBITS n xs = Inr []"
  by (simp add: SKIPBITS_def)

lemma GETBITS_one [simp]: "GETBITS (Suc 0) (b # r) = Inr (if b then 1 else 0, r)"
  by (simp add: GETBITS_def bits_to_nat_def)

lemma SKIPBITS_one [simp]: "SKIPBITS (Suc 0) (b # r) = Inr r"
  by (simp add: SKIPBITS_def)

lemma SKIPBITS_append [simp]: "length xs = n \<Longrightarrow> SKIPBITS n (xs @ r) = Inr r"
  by (simp add: SKIPBITS_def)

lemma GETBITSSIGN_append [simp]:
  "length xs = n \<Longrightarrow> GETBITSSIGN n (xs @ r) = Inr (signed_of n (bits_to_nat xs), r)"
  by (simp add: GETBITSSIGN_def)

lemma GETBITSSIGN_exact:
  "length xs = n \<Longrightarrow> GETBITSSIGN n xs = Inr (signed_of n (bits_to_nat xs), [])"
  by (simp add: GETBITSSIGN_def GETBITS_exact)

lemma bit_Suc_0_0 [simp]: "bit (Suc 0) 0"
  by (simp add: bit_0)

lemma next_set_bit_numeral:
  "next_set_bit m (numeral k) =
     (if bit m (pred_numeral k) then Inr (pred_numeral k) else next_set_bit m (pred_numeral k))"
  by (simp add: numeral_eq_Suc)

lemma next_sig_numeral:
  "next_sig m (numeral k) =
     (if bit m (pred_numeral k) then int (pred_numeral k) else next_sig m (pred_numeral k))"
  by (simp add: numeral_eq_Suc)

lemma signed_of_and_mask: "v < 2 ^ n \<Longrightarrow> signed_of n v AND (push_bit n 1 - 1) = int v"
proof -
  assume v: "v < 2 ^ n"
  have m: "x AND (push_bit n 1 - 1) = take_bit n x" for x :: int
    by (simp add: take_bit_eq_mask mask_eq_exp_minus_1)
  have a: "take_bit n (int v - 2 ^ n) = take_bit n (int v)"
    by (simp add: take_bit_int_def)
  have b: "take_bit n (int v) = int v"
    using v by (simp add: take_bit_int_eq_self)
  show ?thesis
    unfolding m signed_of_def using a b by (simp split: if_splits)
qed

lemma sentinel_iff:
  "length d = n \<Longrightarrow>
   (signed_of n (bits_to_nat d) AND (push_bit n 1 - 1) = k) = (int (bits_to_nat d) = k)"
  using signed_of_and_mask [of "bits_to_nat d" n] bits_to_nat_less [of d] by simp

section \<open>Properties: legacy observation fields\<close>

text \<open>
  Claim C9, as amended. In the L1 block of an extended legacy message the field behind the
  lock time indicator is the ambiguity: 8 bits wide in 1002/1004, where it adds
  \<open>k * 299792.458\<close> m to the code and \<open>k * 299792.458 / wavelength\<close> cycles to the phase;
  7 bits wide in 1010/1012, where the unit is \<open>599584.916\<close> m. The 8-bit CNR that follows
  gives \<open>snr = raw * 0.25\<close>, flagged valid exactly when \<open>raw\<close> is not 0.
\<close>

theorem legacy_ambiguity_cnr:
  assumes "length c = 1" "length g = 24" "length r = 25" "length d = 20" "length l = 7"
    and "length a = 8" "length b = 7" "length s = 8"
  shows "(ty = 1002 \<or> ty = 1004 \<longrightarrow>
          (\<exists>f. DecodeRTCM3GPS_L1 env ty (c @ g @ d @ l @ a @ s @ rest)
                 = Inr ((f, bits_to_nat g, bits_to_nat a), rest)
             \<and> code f = (if bits_to_nat d = 0x80000 then 0 else of_nat (bits_to_nat g) * 0.02)
                         + of_nat (bits_to_nat a) * 299792.458
             \<and> phase f = (if bits_to_nat d = 0x80000 then 0
                           else (of_nat (bits_to_nat g) * 0.02
                                 + of_int (signed_of 20 (bits_to_nat d)) * 0.0005) / GPS_WAVELENGTH_L1)
                          + of_nat (bits_to_nat a) * 299792.458 / GPS_WAVELENGTH_L1
             \<and> snr f = of_nat (bits_to_nat s) * 0.25
             \<and> snrValid f = (bits_to_nat s \<noteq> 0)))
       \<and> (ty = 1010 \<or> ty = 1012 \<longrightarrow>
          (\<exists>f. DecodeRTCM3GLONASS_L1 env ty cd freq (r @ d @ l @ b @ s @ rest)
                 = Inr ((f, bits_to_nat r, bits_to_nat b), rest)
             \<and> code f = (if bits_to_nat d = 0x80000 then 0 else of_nat (bits_to_nat r) * 0.02)
                         + of_nat (bits_to_nat b) * 599584.916
             \<and> phase f = (if bits_to_nat d = 0x80000 then 0
                           else (of_nat (bits_to_nat r) * 0.02
                                 + of_int (signed_of 20 (bits_to_nat d)) * 0.0005)
                                / GLO_WAVELENGTH_L1 (int freq - 7))
                          + of_nat (bits_to_nat b) * 599584.916 / GLO_WAVELENGTH_L1 (int freq - 7)
             \<and> snr f = of_nat (bits_to_nat s) * 0.25
             \<and> snrValid f = (bits_to_nat s \<noteq> 0)))"
proof -
  have sd: "(signed_of 20 (bits_to_nat d) AND (push_bit 20 1 - 1) = 0x80000)
            = (bits_to_nat d = 0x80000)"
    using sentinel_iff [OF assms(4), of "0x80000"] by (simp del: push_bit_eq_mult)
  have gps: "ty = 1002 \<or> ty = 1004 \<Longrightarrow> ?thesis"
    using assms sd
    by (auto simp: DecodeRTCM3GPS_L1_def new_frqObs_def Let_def simp del: push_bit_eq_mult)
  have glo: "ty = 1010 \<or> ty = 1012 \<Longrightarrow> ?thesis"
    using assms sd
    by (auto simp: DecodeRTCM3GLONASS_L1_def new_frqObs_def Let_def simp del: push_bit_eq_mult)
  show ?thesis
    using gps glo by (cases "ty = 1002 \<or> ty = 1004"; cases "ty = 1010 \<or> ty = 1012") auto
qed

theorem legacy_ambiguity_cnr_witness:
  "(\<exists>f. DecodeRTCM3GPS_L1 env0 1004
           (bits 1 0 @ bits 24 10000000 @ bits 20 0 @ bits 7 5 @ bits 8 2 @ bits 8 160 @ [])
         = Inr ((f, 10000000, 2), [])
       \<and> code f = 799584.916 \<and> snr f = 40 \<and> snrValid f)
   \<and> (\<exists>f. DecodeRTCM3GLONASS_L1 env0 1012 0 7
           (bits 25 20000000 @ bits 20 0 @ bits 7 5 @ bits 7 2 @ bits 8 0 @ [])
         = Inr ((f, 20000000, 2), [])
       \<and> code f = 1599169.832 \<and> snr f = 0 \<and> \<not> snrValid f)"
  using legacy_ambiguity_cnr [where c = "bits 1 0" and g = "bits 24 10000000"
      and r = "bits 25 20000000" and d = "bits 20 0" and l = "bits 7 5" and a = "bits 8 2"
      and b = "bits 7 2" and s = "bits 8 160" and ty = 1004 and env = env0 and rest = "[]"]
    legacy_ambiguity_cnr [where c = "bits 1 0" and g = "bits 24 10000000"
      and r = "bits 25 20000000" and d = "bits 20 0" and l = "bits 7 5" and a = "bits 8 2"
      and b = "bits 7 2" and s = "bits 8 0" and ty = 1012 and env = env0 and rest = "[]"
      and cd = 0 and freq = 7]
  by auto

text \<open>
  The claim as stated fails on 1010. Let the eight bits behind the lock time indicator be
  \<open>00000011\<close>, the pseudorange being 0: the decoder takes seven of them as ambiguity 1 and
  the code becomes 599584.916 m, where an 8-bit field of unit 299792.458 m would read 3
  and give 899377.374 m.
\<close>

theorem legacy_ambiguity_cnr_counterexample:
  "bits_to_nat (take 8 (bits 7 1 @ bits 8 128 @ bits 1 0)) = 3
   \<and> snd (snd (fst (projr (DecodeRTCM3GLONASS_L1 env0 1010 0 7
       (bits 25 0 @ bits 20 0 @ bits 7 0 @ bits 7 1 @ bits 8 128 @ bits 1 0))))) = 1
   \<and> code (fst (fst (projr (DecodeRTCM3GLONASS_L1 env0 1010 0 7
       (bits 25 0 @ bits 20 0 @ bits 7 0 @ bits 7 1 @ bits 8 128 @ bits 1 0))))) = 599584.916
   \<and> code (fst (fst (projr (DecodeRTCM3GLONASS_L1 env0 1010 0 7
       (bits 25 0 @ bits 20 0 @ bits 7 0 @ bits 7 1 @ bits 8 128 @ bits 1 0)))))
       \<noteq> 3 * 299792.458"
proof -
  have n: "bits_to_nat (take 8 (bits 7 1 @ bits 8 128 @ bits 1 0)) = 3"
    by (simp add: bits_numeral bits_to_nat_def)
  have d: "DecodeRTCM3GLONASS_L1 env0 1010 0 7
       (bits 25 0 @ bits 20 0 @ bits 7 0 @ bits 7 1 @ bits 8 128 @ bits 1 0)
     = Inr ((new_frqObs\<lparr>rnxType2ch := ''1C'', code := 599584.916,
                phase := 599584.916 / GLO_WAVELENGTH_L1 0, codeValid := True,
                phaseValid := True, lockTimeValid := True, snr := 32, snrValid := True\<rparr>, 0, 1),
            bits 1 0)"
    by (simp add: DecodeRTCM3GLONASS_L1_def new_frqObs_def Let_def signed_of_def env0_def)
  show ?thesis
    unfolding d using n by simp
qed

lemmas reader_eval = payload_reader_def bits_of_bytes_def bits_of_byte_def GETBITS_def
  SKIPBITS_def GETBITSSIGN_def GETBITSSIGNM_def GETFLOAT_def GETFLOATSIGN_def GETFLOATSIGNM_def
  bits_to_nat_def signed_of_def signmag_of_def

lemmas eph_eval = fldU_def fldF_def fldFS_def fldFM_def skp_def put_def new_eph_def

section \<open>Properties: the GLONASS frequency table\<close>

lemma GLOFreq_store_legacy:
  "sv < 64 \<Longrightarrow> (\<exists>tbl'. GLOFreq_store (int sv - 1) v tbl = Inr tbl') = (sv \<noteq> 0)"
  by (auto simp: GLOFreq_store_def RTCM3_MSM_NUMSAT_def)

lemma glo_channel_in_bounds:
  "i < 64 \<Longrightarrow> \<exists>k tbl'. glo_channel i ext tbl = Inr (k, tbl')"
  by (auto simp: glo_channel_def GLOFreq_store_def RTCM3_MSM_NUMSAT_def)

text \<open>
  Claim C10 at its failing inputs. The legacy GLONASS decoder and the GLONASS ephemeris
  decoder store at \<^verbatim>\<open>GLOFreq[sv - 1]\<close> without looking at \<open>sv\<close>: for the satellite field 0
  the index is \<open>-1\<close>.
\<close>

theorem GLOFreq_store_below_table:
  "DecodeRTCM3GLONASS env0 f1012_sv0 30 st0 = Inl (OutOfBounds (- 1))
   \<and> DecodeGLONASSEphemeris env0 f1020_sv0 51 st0 = Inl (OutOfBounds (- 1))"
proof
  show "DecodeRTCM3GLONASS env0 f1012_sv0 30 st0 = Inl (OutOfBounds (- 1))"
    by (simp add: DecodeRTCM3GLONASS_def f1012_sv0_def reader_eval env0_def st0_def
        epoch_begin_def DecodeRTCM3GLONASS_sat_def GLOFreq_store_def RTCM3_MSM_NUMSAT_def)
  show "DecodeGLONASSEphemeris env0 f1020_sv0 51 st0 = Inl (OutOfBounds (- 1))"
    by (simp add: DecodeGLONASSEphemeris_def f1020_sv0_def reader_eval eph_eval env0_def
        st0_def GLOFreq_store_def RTCM3_MSM_NUMSAT_def power2_eq_square)
qed

section \<open>Properties: SBAS satellite numbers\<close>

lemma eph_prn_put [simp]: "eph_prn (put n v e) = eph_prn e"
  by (simp add: put_def)

lemma keeps_prn_fld [simp]:
  "keeps_prn (fldU n k)" "keeps_prn (fldF n k s)" "keeps_prn (fldFS n k s)"
  "keeps_prn (fldFM n k s)" "keeps_prn (skp k)"
  by (auto simp: keeps_prn_def fldU_def fldF_def fldFS_def fldFM_def skp_def bindE_eq_Inr)

lemma steps_keeps_prn:
  "list_all keeps_prn fs \<Longrightarrow> steps fs (e, r) = Inr (e', r') \<Longrightarrow> eph_prn e' = eph_prn e"
proof (induction fs arbitrary: e r)
  case Nil
  then show ?case by simp
next
  case (Cons f fs)
  from Cons.prems obtain e1 r1
    where f: "f (e, r) = Inr (e1, r1)" and s: "steps fs (e1, r1) = Inr (e', r')"
    by (auto simp: bindE_eq_Inr)
  from Cons.prems f have "eph_prn e1 = eph_prn e" by (auto simp: keeps_prn_def)
  moreover from Cons.prems s have "eph_prn e' = eph_prn e1" using Cons.IH by simp
  ultimately show ?case by simp
qed

lemma sbas_eph_prn:
  assumes "DecodeSBASEphemeris env data sz st = Inr (True, st')"
  shows "\<exists>e. emitted st' = emitted st @ [newSBASEph e]
           \<and> eph_prn e = \<lparr>system = CHR ''S'',
                number = 20 + int (bits_to_nat (take 6 (drop 12 (payload_reader data sz))))\<rparr>"
  using assms
  apply (simp add: DecodeSBASEphemeris_def bindE_eq_Inr del: steps.simps split: if_splits)
  apply (elim exE conjE)
  apply (simp add: SKIPBITS_def GETBITS_def del: steps.simps split: if_splits prod.splits)
  apply (auto simp: bindE_eq_Inr new_eph_def simp del: steps.simps split: if_splits prod.splits
      dest!: steps_keeps_prn [rotated])
  done

lemma gps_sat_prn:
  assumes "length s = 6" "DecodeRTCM3GPS_sat env ty t (s @ rest) = Inr (ob, r')"
  shows "prn ob = (if bits_to_nat s < 40 then \<lparr>system = CHR ''G'', number = int (bits_to_nat s)\<rparr>
                   else \<lparr>system = CHR ''S'', number = int (bits_to_nat s) - 20\<rparr>)"
  using assms
  by (auto simp: DecodeRTCM3GPS_sat_def bindE_eq_Inr Let_def split: if_splits prod.splits)

lemma msm_sbas_prn:
  assumes "msm_advance ty (CHR ''S'') t satmask sigmask w = Inr w'"
  shows "w_obs w' = w_obs w \<or>
         prn (w_obs w') = \<lparr>system = CHR ''S'', number = 19 + (64 - int (w_i w'))\<rparr>"
  using assms
  by (auto simp: msm_advance_def Let_def bindE_eq_Inr RTCM3_MSM_NUMSAT_def split: if_splits)

text \<open>
  Claim C8, as amended. A legacy GPS-family satellite field of 40 or more gives the SBAS
  number \<open>field - 20\<close>; the SBAS ephemeris 1043 gives \<open>field + 20\<close>; the MSM cell walk,
  where the system is SBAS, numbers a satellite that it starts as 19 plus its position in
  the satellite mask counted from the top, the top bit being position 1.
\<close>

theorem sbas_satellite_number:
  "(length s = 6 \<longrightarrow> 40 \<le> bits_to_nat s \<longrightarrow>
      DecodeRTCM3GPS_sat env ty t (s @ rest) = Inr (ob, r') \<longrightarrow>
      prn ob = \<lparr>system = CHR ''S'', number = int (bits_to_nat s) - 20\<rparr>)
   \<and> (DecodeSBASEphemeris env data sz st = Inr (True, st') \<longrightarrow>
      (\<exists>e. emitted st' = emitted st @ [newSBASEph e]
           \<and> eph_prn e = \<lparr>system = CHR ''S'',
                number = int (bits_to_nat (take 6 (drop 12 (payload_reader data sz)))) + 20\<rparr>))
   \<and> (msm_advance ty' (CHR ''S'') t' satmask sigmask w = Inr w' \<longrightarrow>
      w_obs w' = w_obs w \<or>
      prn (w_obs w') = \<lparr>system = CHR ''S'', number = 19 + (64 - int (w_i w'))\<rparr>)"
  using gps_sat_prn [of s env ty t rest ob r'] sbas_eph_prn [of env data sz st st']
    msm_sbas_prn [of ty' t' satmask sigmask w w']
  by (auto simp: add.commute)

theorem sbas_satellite_number_witness:
  "prn (fst (projr (DecodeRTCM3GPS_sat env0 1002 0
       (bits 6 45 @ bits 1 0 @ bits 24 10000000 @ bits 20 0 @ bits 7 0 @ bits 8 0 @ bits 8 0
        @ []))))
     = \<lparr>system = CHR ''S'', number = 25\<rparr>
   \<and> (\<exists>e. emitted (snd (projr (DecodeSBASEphemeris env0 f1043 35 st0))) = [newSBASEph e]
          \<and> eph_prn e = \<lparr>system = CHR ''S'', number = 24\<rparr>)
   \<and> prn (w_obs (projr (msm_advance 1104 (CHR ''S'') 0 (2 ^ 63) (2 ^ 30)
        \<lparr>w_i = 64, w_j = - 1, w_numsat = 1, w_obs = empty_satObs, w_list = [], w_tbl = []\<rparr>)))
     = \<lparr>system = CHR ''S'', number = 20\<rparr>"
proof -
  let ?r = "bits 6 45 @ bits 1 0 @ bits 24 10000000 @ bits 20 0 @ bits 7 0 @ bits 8 0 @ bits 8 0 @ []"
  let ?w = "\<lparr>w_i = 64, w_j = - 1, w_numsat = 1, w_obs = empty_satObs, w_list = [], w_tbl = []\<rparr>"
  obtain ob where a: "DecodeRTCM3GPS_sat env0 1002 0 ?r = Inr (ob, [])"
    by (simp add: DecodeRTCM3GPS_sat_def DecodeRTCM3GPS_L1_def Let_def signed_of_def
        GETBITS_exact)
  obtain st' where b: "DecodeSBASEphemeris env0 f1043 35 st0 = Inr (True, st')"
    by (simp add: DecodeSBASEphemeris_def f1043_def reader_eval eph_eval env0_def st0_def
        power2_eq_square)
  have n: "bits_to_nat (take 6 (drop 12 (payload_reader f1043 35))) = 4"
    by (simp add: f1043_def reader_eval)
  obtain w' where c: "msm_advance 1104 (CHR ''S'') 0 (2 ^ 63) (2 ^ 30) ?w = Inr w'"
      and i: "w_i w' = 63" and o: "w_obs w' \<noteq> w_obs ?w"
    by (simp add: msm_advance_def next_set_bit_numeral RTCM3_MSM_NUMSAT_def
        RTCM3_MSM_NUMSIG_def empty_satObs_def)
  have l: "length (bits 6 45) = 6" "40 \<le> bits_to_nat (bits 6 45)" "emitted st0 = []"
    by (simp_all add: st0_def)
  note t = sbas_satellite_number [where s = "bits 6 45" and env = env0 and ty = 1002 and t = 0
        and rest = "bits 1 0 @ bits 24 10000000 @ bits 20 0 @ bits 7 0 @ bits 8 0 @ bits 8 0 @ []"
        and ob = ob and r' = "[]" and data = f1043 and sz = 35 and st = st0 and st' = st'
        and ty' = 1104 and t' = 0 and satmask = "2 ^ 63" and sigmask = "2 ^ 30" and w = ?w
        and w' = w']
  have 1: "prn ob = \<lparr>system = CHR ''S'', number = 25\<rparr>"
    using t l a by simp
  have 2: "\<exists>e. emitted st' = [newSBASEph e] \<and> eph_prn e = \<lparr>system = CHR ''S'', number = 24\<rparr>"
    using t b n l by simp
  have 3: "prn (w_obs w') = \<lparr>system = CHR ''S'', number = 20\<rparr>"
    using t c i o by simp
  show ?thesis
    unfolding a b c using 1 2 3 by simp
qed

text \<open>
  The claim as stated fails on the legacy path: the satellite field 45 of a 1002 message
  gives the SBAS number 25, not 65.
\<close>

theorem sbas_satellite_number_counterexample:
  "system (prn (fst (projr (DecodeRTCM3GPS_sat env0 1002 0
       (bits 6 45 @ bits 1 0 @ bits 24 10000000 @ bits 20 0 @ bits 7 0 @ bits 8 0
        @ bits 8 0))))) = CHR ''S''
   \<and> number (prn (fst (projr (DecodeRTCM3GPS_sat env0 1002 0
       (bits 6 45 @ bits 1 0 @ bits 24 10000000 @ bits 20 0 @ bits 7 0 @ bits 8 0
        @ bits 8 0))))) = 25
   \<and> int (bits_to_nat (bits 6 45)) + 20 = 65"
  by (simp add: DecodeRTCM3GPS_sat_def DecodeRTCM3GPS_L1_def Let_def signed_of_def GETBITS_exact)

section \<open>Properties: MSM frames\<close>

lemma read_sat_array_numeral:
  "read_sat_array get (numeral k) arr r =
     bindE (get r) (\<lambda>(v, r'). read_sat_array get (pred_numeral k) (arr(pred_numeral k := v)) r')"
  by (simp add: numeral_eq_Suc)

lemma read_cell_array_numeral:
  "read_cell_array get cellmask (numeral k) arr r =
     bindE (cell_test cellmask (pred_numeral k)) (\<lambda>b.
     if b
     then bindE (get r) (\<lambda>(v, r'). read_cell_array get cellmask (pred_numeral k)
                                        (arr(pred_numeral k := v)) r')
     else read_cell_array get cellmask (pred_numeral k) arr r)"
  by (simp add: numeral_eq_Suc)

lemma skip_cell_array_numeral:
  "skip_cell_array n cellmask (numeral k) r =
     bindE (cell_test cellmask (pred_numeral k)) (\<lambda>b.
     if b
     then bindE (SKIPBITS n r) (\<lambda>r'. skip_cell_array n cellmask (pred_numeral k) r')
     else skip_cell_array n cellmask (pred_numeral k) r)"
  by (simp add: numeral_eq_Suc)

lemma msm_cells_numeral:
  "msm_cells env ty sys t satmask sigmask cellmask sa sg (numeral k) w =
     bindE (msm_advance ty sys t satmask sigmask w) (\<lambda>w1.
     bindE (cell_test cellmask (pred_numeral k)) (\<lambda>b.
     bindE (if b then msm_cell env ty sys sa sg (pred_numeral k) w1 else Inr w1) (\<lambda>w2.
     msm_cells env ty sys t satmask sigmask cellmask sa sg (pred_numeral k) w2)))"
  by (simp add: numeral_eq_Suc)

lemmas msm_eval = DecodeRTCM3MSM_def msm_sys_def msm_time_def msm_body_def msm_sat_data_def
  msm_sig_data_def popcount.simps read_sat_array_numeral read_cell_array_numeral cell_test_def
  skip_cell_array_numeral msm_cells_numeral next_set_bit_numeral next_sig_numeral
  RTCM3_MSM_NUMSAT_def RTCM3_MSM_NUMSIG_def RTCM3_MSM_NUMCELLS_def epoch_begin_def epoch_end_def
  GETNAT_def

lemma GETBITS_Inr_iff:
  "(GETBITS n r = Inr x) = (n \<le> length r \<and> x = (bits_to_nat (take n r), drop n r))"
  by (auto simp: GETBITS_def)

lemma SKIPBITS_Inr_iff: "(SKIPBITS n r = Inr x) = (n \<le> length r \<and> x = drop n r)"
  by (auto simp: SKIPBITS_def)

lemma held_obs_epoch_begin:
  "epoch_begin t st = (d, st1) \<Longrightarrow>
   held_obs st1 = held_obs st \<and> emitted st1 = emitted st \<and> GLOFreq st1 = GLOFreq st"
  by (auto simp: epoch_begin_def held_obs_def Let_def split: if_splits)

lemma held_obs_epoch_end:
  "epoch_end syncf d st = (d', st') \<Longrightarrow>
   held_obs st' = held_obs st \<and> emitted st' = emitted st \<and> GLOFreq st' = GLOFreq st"
  by (auto simp: epoch_end_def held_obs_def split: if_splits)

lemma msm_body_over_limit:
  assumes "msm_body env ty sys t r lst tbl = Inr (lst', tbl')"
    and "RTCM3_MSM_NUMCELLS < popcount (bits_to_nat (take 64 (drop 18 r)))
                               * popcount (bits_to_nat (take 32 (drop 82 r)))"
  shows "lst' = lst \<and> tbl' = tbl"
  using assms
  by (auto simp: msm_body_def bindE_eq_Inr Let_def SKIPBITS_def GETBITS_def
      RTCM3_MSM_NUMSAT_def RTCM3_MSM_NUMSIG_def split: if_splits)

lemma msm_time_drop:
  "msm_time env sys r = Inr (t, r') \<Longrightarrow> r' = drop 30 r"
  by (auto simp: msm_time_def bindE_eq_Inr SKIPBITS_def GETBITS_def split: if_splits)

lemma DecodeRTCM3MSM_unfold:
  assumes "r = payload_reader data sz" "msm_sys (bits_to_nat (take 12 r)) = Some sys"
    "DecodeRTCM3MSM env data sz st = Inr res"
  shows "bindE (msm_time env sys (drop 24 r)) (\<lambda>(CurrentObsTime, r).
         let (decoded, st1) = epoch_begin CurrentObsTime st in
         bindE (GETBITS 1 r) (\<lambda>(syncf, r).
         bindE (if bits_to_nat (take 12 (payload_reader data sz)) \<le> 1137
                   \<and> bits_to_nat (take 12 (payload_reader data sz)) mod 10 \<ge> 4
                   \<and> bits_to_nat (take 12 (payload_reader data sz)) mod 10 \<le> 7
                then bindE (msm_body env (bits_to_nat (take 12 (payload_reader data sz))) sys
                              CurrentObsTime r (CurrentObsList st1) (GLOFreq st1))
                       (\<lambda>(lst, tbl). Inr (st1\<lparr>CurrentObsList := lst, GLOFreq := tbl\<rparr>))
                else if bits_to_nat (take 12 (payload_reader data sz)) mod 10 < 4
                then Inr (st1\<lparr>emitted := emitted st1
                            @ [newMessage (bits_to_nat (take 12 (payload_reader data sz)))]\<rparr>)
                else Inr st1) (\<lambda>st2.
         Inr (epoch_end syncf decoded st2)))) = Inr res"
proof -
  have "12 \<le> length r \<and> 12 \<le> length r - 12"
    using assms(3) unfolding DecodeRTCM3MSM_def assms(1) [symmetric]
    by (simp add: bindE_eq_Inr GETBITS_Inr_iff SKIPBITS_Inr_iff)
  then have l: "24 \<le> length r" by arith
  have g: "GETBITS 12 r = Inr (bits_to_nat (take 12 r), drop 12 r)"
    using l by (simp add: GETBITS_def)
  have s: "SKIPBITS 12 (drop 12 r) = Inr (drop 24 r)"
    using l by (simp add: SKIPBITS_def)
  show ?thesis
    using assms(3) unfolding DecodeRTCM3MSM_def assms(1) [symmetric] g
    by (simp add: s assms(2))
qed


lemma length_tables [simp]:
  "length gps = 32" "length glo = 32" "length gal = 32" "length qzss = 32" "length bds = 32"
  "length irn = 32"
  by (simp_all add: gps_def glo_def gal_def qzss_def bds_def irn_def)


lemma cell_test_Inr: "(cell_test cellmask count = Inr b) = (count < 64 \<and> b = bit cellmask count)"
  by (auto simp: cell_test_def)

lemma msm_cells_Suc_Inr:
  "(msm_cells env ty sys t satmask sigmask cellmask sa sg (Suc count) w = Inr w') =
   (count < 64 \<and> (\<exists>w1 w2. msm_advance ty sys t satmask sigmask w = Inr w1
      \<and> (if bit cellmask count then msm_cell env ty sys sa sg count w1 else Inr w1) = Inr w2
      \<and> msm_cells env ty sys t satmask sigmask cellmask sa sg count w2 = Inr w'))"
  by (auto simp: bindE_eq_Inr cell_test_Inr)

section \<open>Properties: staged observations\<close>

lemma rnx_if: "rnxType2ch (if c then x else y) = (if c then rnxType2ch x else rnxType2ch y)"
  by simp

lemma GPS_L1_band:
  "DecodeRTCM3GPS_L1 env ty r = Inr ((f, l, a), r') \<Longrightarrow> length (rnxType2ch f) = 2"
  by (cases "ty = 1002 \<or> ty = 1004")
    (clarsimp simp: DecodeRTCM3GPS_L1_def bindE_eq_Inr Let_def new_frqObs_def rnx_if
       simp del: push_bit_eq_mult)+

lemma GPS_L2_band:
  "DecodeRTCM3GPS_L2 env ty l a r = Inr (f, r') \<Longrightarrow> length (rnxType2ch f) = 2"
proof -
  assume a: "DecodeRTCM3GPS_L2 env ty l a r = Inr (f, r')"
  then obtain cd r1 where g: "GETBITS 2 r = Inr (cd, r1)"
    by (auto simp: DecodeRTCM3GPS_L2_def bindE_eq_Inr)
  then have "cd < 4"
    using bits_to_nat_less [of "take 2 r"] by (auto simp: GETBITS_Inr_iff)
  then have "cd = 0 \<or> cd = 1 \<or> cd = 2 \<or> cd = 3" by arith
  moreover from a g have "rnxType2ch f =
      (if cd = 3 then ''2W'' else if cd = 2 then ''2W''
       else if cd = 1 then ''2P'' else if cd = 0 then ''2X'' else [])"
    by (cases "ty = 1004")
      (clarsimp simp: DecodeRTCM3GPS_L2_def bindE_eq_Inr Let_def new_frqObs_def rnx_if
         simp del: push_bit_eq_mult)+
  ultimately show ?thesis by auto
qed

lemma GPS_sat_banded:
  "DecodeRTCM3GPS_sat env ty t r = Inr (ob, r') \<Longrightarrow> banded ob"
  by (cases "ty = 1003 \<or> ty = 1004")
    (auto simp: DecodeRTCM3GPS_sat_def bindE_eq_Inr Let_def banded_def
       dest: GPS_L1_band GPS_L2_band)

lemma GPS_sats_append:
  "DecodeRTCM3GPS_sats env ty t n r acc = Inr (lst, r') \<Longrightarrow>
   \<exists>new. lst = acc @ new \<and> (\<forall>ob \<in> set new. banded ob)"
proof (induction n arbitrary: r acc)
  case 0
  then show ?case by simp
next
  case (Suc n)
  from Suc.prems obtain ob r1 where s: "DecodeRTCM3GPS_sat env ty t r = Inr (ob, r1)"
    and rest: "DecodeRTCM3GPS_sats env ty t n r1 (acc @ [ob]) = Inr (lst, r')"
    by (auto simp: bindE_eq_Inr)
  from Suc.IH [OF rest] obtain new where "lst = (acc @ [ob]) @ new" "\<forall>ob \<in> set new. banded ob"
    by blast
  with GPS_sat_banded [OF s] show ?case
    by (intro exI [of _ "ob # new"]) simp
qed

lemma GLONASS_L1_band:
  "DecodeRTCM3GLONASS_L1 env ty cd fr r = Inr ((f, l, a), r') \<Longrightarrow> length (rnxType2ch f) = 2"
  by (cases "ty = 1010 \<or> ty = 1012")
    (clarsimp simp: DecodeRTCM3GLONASS_L1_def bindE_eq_Inr Let_def new_frqObs_def rnx_if
       simp del: push_bit_eq_mult)+

lemma GLONASS_L2_band:
  "DecodeRTCM3GLONASS_L2 env ty fr l a r = Inr (f, r') \<Longrightarrow> length (rnxType2ch f) = 2"
proof -
  assume a: "DecodeRTCM3GLONASS_L2 env ty fr l a r = Inr (f, r')"
  then obtain cd r1 where g: "GETBITS 2 r = Inr (cd, r1)"
    by (auto simp: DecodeRTCM3GLONASS_L2_def bindE_eq_Inr)
  then have "cd < 4"
    using bits_to_nat_less [of "take 2 r"] by (auto simp: GETBITS_Inr_iff)
  then have "cd = 0 \<or> cd = 1 \<or> cd = 2 \<or> cd = 3" by arith
  moreover from a g have "rnxType2ch f =
      (if cd = 3 then ''2P'' else if cd = 2 then ''2P''
       else if cd = 1 then ''2P'' else if cd = 0 then ''2C'' else [])"
    by (cases "ty = 1012")
      (clarsimp simp: DecodeRTCM3GLONASS_L2_def bindE_eq_Inr Let_def new_frqObs_def rnx_if
         simp del: push_bit_eq_mult)+
  ultimately show ?thesis by auto
qed

lemma GLONASS_sat_banded:
  "DecodeRTCM3GLONASS_sat env ty t tbl r = Inr ((ob, tbl'), r') \<Longrightarrow> banded ob"
  by (cases "ty = 1011 \<or> ty = 1012")
    (auto simp: DecodeRTCM3GLONASS_sat_def bindE_eq_Inr Let_def banded_def
       dest: GLONASS_L1_band GLONASS_L2_band)

lemma GLONASS_sats_append:
  "DecodeRTCM3GLONASS_sats env ty t n r acc tbl = Inr ((lst, tbl'), r') \<Longrightarrow>
   \<exists>new. lst = acc @ new \<and> (\<forall>ob \<in> set new. banded ob)"
proof (induction n arbitrary: r acc tbl)
  case 0
  then show ?case by simp
next
  case (Suc n)
  from Suc.prems obtain ob tbl1 r1
    where s: "DecodeRTCM3GLONASS_sat env ty t tbl r = Inr ((ob, tbl1), r1)"
    and rest: "DecodeRTCM3GLONASS_sats env ty t n r1 (acc @ [ob]) tbl1 = Inr ((lst, tbl'), r')"
    by (auto simp: bindE_eq_Inr)
  from Suc.IH [OF rest] obtain new where "lst = (acc @ [ob]) @ new" "\<forall>ob \<in> set new. banded ob"
    by blast
  with GLONASS_sat_banded [OF s] show ?case
    by (intro exI [of _ "ob # new"]) simp
qed

lemma table_codes:
  "\<forall>cd \<in> set gps \<union> set glo \<union> set gal \<union> set qzss \<union> set bds \<union> set irn.
     \<forall>c. snd cd = Some c \<longrightarrow> length c = 2"
  by (simp add: gps_def glo_def gal_def qzss_def bds_def irn_def)

lemma msm_code_data_len:
  assumes "snd (msm_code_data sys j) = Some c"
  shows "length c = 2"
proof -
  have m: "tab ! (32 - j - 1) \<in> set tab" if "length tab = 32" for tab :: "CodeData list"
    by (rule nth_mem) (simp add: that)
  have "msm_code_data sys j = (0, None)
        \<or> msm_code_data sys j \<in> set gps \<union> set glo \<union> set gal \<union> set qzss \<union> set bds \<union> set irn"
    unfolding msm_code_data_def RTCM3_MSM_NUMSIG_def
    using m [of gps] m [of glo] m [of gal] m [of qzss] m [of bds] m [of irn]
    by simp
  with assms table_codes show ?thesis by auto
qed

lemma glo_adjust_code: "snd (glo_adjust k cd) = Some c \<Longrightarrow> snd cd = Some c"
  by (auto simp: glo_adjust_def split: if_splits)

lemma rnx_msm_frqObs [simp]: "rnxType2ch (msm_frqObs env ty wl cod sa sg n count) = cod"
  by (simp add: msm_frqObs_def Let_def new_frqObs_def)

lemma msm_cell_result:
  assumes "msm_cell env ty sys sa sg count w = Inr w'"
  shows "w_list w' = w_list w \<and>
         (obs (w_obs w') = obs (w_obs w) \<or>
          (\<exists>wl cod. snd (msm_code_data sys (nat (w_j w))) = Some cod \<and>
             obs (w_obs w') = obs (w_obs w) @ [msm_frqObs env ty wl cod sa sg (w_numsat w) count]))"
proof -
  define cd where "cd = msm_code_data sys (nat (w_j w))"
  from assms have "\<exists>cd' tbl'. (if sys = CHR ''R''
          then bindE (glo_channel (w_i w) (extsat sa (w_numsat w)) (w_tbl w))
                 (\<lambda>(k, tbl'). Inr (glo_adjust k cd, tbl'))
          else Inr (cd, w_tbl w)) = Inr (cd', tbl') \<and>
        (case snd cd' of
           Some cod \<Rightarrow> Inr (w\<lparr>w_tbl := tbl', w_obs := (w_obs w)\<lparr>obs := obs (w_obs w)
                 @ [msm_frqObs env ty (fst cd') cod sa sg (w_numsat w) count]\<rparr>\<rparr>)
         | None \<Rightarrow> Inr (w\<lparr>w_tbl := tbl'\<rparr>)) = (Inr w' :: error + msm_walk)"
    unfolding msm_cell_def Let_def cd_def [symmetric] bindE_eq_Inr by auto
  then obtain cd' tbl' where
    ch: "(if sys = CHR ''R''
          then bindE (glo_channel (w_i w) (extsat sa (w_numsat w)) (w_tbl w))
                 (\<lambda>(k, tbl'). Inr (glo_adjust k cd, tbl'))
          else Inr (cd, w_tbl w)) = Inr (cd', tbl')"
    and w': "(case snd cd' of
           Some cod \<Rightarrow> Inr (w\<lparr>w_tbl := tbl', w_obs := (w_obs w)\<lparr>obs := obs (w_obs w)
                 @ [msm_frqObs env ty (fst cd') cod sa sg (w_numsat w) count]\<rparr>\<rparr>)
         | None \<Rightarrow> Inr (w\<lparr>w_tbl := tbl'\<rparr>)) = (Inr w' :: error + msm_walk)"
    by blast
  have c: "snd cd' = None \<or> snd cd' = snd cd"
  proof (cases "sys = CHR ''R''")
    case True
    with ch obtain k where "cd' = glo_adjust k cd"
      by (auto simp: bindE_eq_Inr)
    then show ?thesis
      by (cases "snd cd'") (auto dest: glo_adjust_code)
  next
    case False
    with ch show ?thesis by simp
  qed
  show ?thesis
  proof (cases "snd cd'")
    case None
    with w' show ?thesis by auto
  next
    case (Some cod)
    with c have "snd cd = Some cod" by simp
    with Some w' show ?thesis unfolding cd_def by auto
  qed
qed

lemma msm_cell_inv:
  assumes "msm_cell env ty sys sa sg count w = Inr w'" "walk_inv lst w"
  shows "walk_inv lst w'"
  using msm_cell_result [OF assms(1)] assms(2) msm_code_data_len [of sys "nat (w_j w)"]
  by (auto simp: walk_inv_def)

lemma msm_advance_inv:
  assumes "msm_advance ty sys t satmask sigmask w = Inr w'" "walk_inv lst w"
  shows "walk_inv lst w'"
proof -
  define j1 where "j1 = (if w_j w \<ge> 0 then next_sig sigmask (nat (w_j w)) else w_j w)"
  show ?thesis
  proof (cases "j1 < 0")
    case False
    with assms show ?thesis
      by (auto simp: msm_advance_def j1_def [symmetric] walk_inv_def)
  next
    case True
    with assms(1) obtain i' j' p where
      w': "w' = w\<lparr>w_i := i', w_j := int j', w_numsat := w_numsat w - 1,
               w_list := (if obs (w_obs w) \<noteq> [] then w_list w @ [w_obs w] else w_list w),
               w_obs := \<lparr>prn = p, time = t, type = ty, obs = []\<rparr>\<rparr>"
      by (auto simp: msm_advance_def j1_def [symmetric] bindE_eq_Inr)
    from assms(2) obtain new where n: "w_list w = lst @ new" "\<forall>ob \<in> set new. banded ob"
      and o: "\<forall>f \<in> set (obs (w_obs w)). length (rnxType2ch f) = 2"
      by (auto simp: walk_inv_def)
    show ?thesis
    proof (cases "obs (w_obs w) = []")
      case True
      with w' n show ?thesis by (auto simp: walk_inv_def)
    next
      case False
      with o have "banded (w_obs w)" by (simp add: banded_def)
      with n have "w_list w @ [w_obs w] = lst @ (new @ [w_obs w])"
        "\<forall>ob \<in> set (new @ [w_obs w]). banded ob" by auto
      with w' False show ?thesis unfolding walk_inv_def by (simp del: append_assoc)
    qed
  qed
qed

lemma msm_cells_inv:
  "msm_cells env ty sys t satmask sigmask cellmask sa sg count w = Inr w' \<Longrightarrow> walk_inv lst w
   \<Longrightarrow> walk_inv lst w'"
proof (induction count arbitrary: w)
  case 0
  then show ?case by simp
next
  case (Suc count)
  from Suc.prems(1) obtain w1 w2 where a: "msm_advance ty sys t satmask sigmask w = Inr w1"
    and c: "(if bit cellmask count then msm_cell env ty sys sa sg count w1 else Inr w1) = Inr w2"
    and r: "msm_cells env ty sys t satmask sigmask cellmask sa sg count w2 = Inr w'"
    unfolding msm_cells_Suc_Inr by blast
  from msm_advance_inv [OF a Suc.prems(2)] have "walk_inv lst w1" .
  with c have "walk_inv lst w2"
    by (cases "bit cellmask count") (auto dest: msm_cell_inv)
  with Suc.IH [OF r] show ?case .
qed

lemma bindE_InrE:
  assumes "bindE m f = Inr y"
  obtains x where "m = Inr x" "f x = Inr y"
  using assms by (auto simp: bindE_eq_Inr)

lemma msm_tail_append:
  assumes fin: "(if numcells \<le> RTCM3_MSM_NUMCELLS then
       bindE (msm_sig_data ty cellmask numcells r5) (\<lambda>(sg, r).
       bindE (msm_cells env ty sys t satmask sigmask cellmask sa sg numcells
                \<lparr>w_i = RTCM3_MSM_NUMSAT, w_j = - 1, w_numsat = numsat,
                 w_obs = empty_satObs, w_list = lst, w_tbl = tbl\<rparr>) (\<lambda>w.
       Inr (if obs (w_obs w) \<noteq> [] then w_list w @ [w_obs w] else w_list w, w_tbl w)))
     else Inr (lst, tbl)) = (Inr (lst', tbl') :: error + (t_satObs list \<times> int list))"
  shows "\<exists>new. lst' = lst @ new \<and> (\<forall>ob \<in> set new. banded ob)"
proof (cases "numcells \<le> RTCM3_MSM_NUMCELLS")
  case False
  with fin have "lst' = lst" by simp
  then show ?thesis by (intro exI [of _ "[]"]) simp
next
  case True
  let ?w0 = "\<lparr>w_i = RTCM3_MSM_NUMSAT, w_j = - 1, w_numsat = numsat,
               w_obs = empty_satObs, w_list = lst, w_tbl = tbl\<rparr>"
  from True fin obtain sg w where
    cells: "msm_cells env ty sys t satmask sigmask cellmask sa sg numcells ?w0 = Inr w"
    and l: "lst' = (if obs (w_obs w) \<noteq> [] then w_list w @ [w_obs w] else w_list w)"
    by (auto simp: bindE_eq_Inr)
  have "walk_inv lst ?w0"
    by (simp add: walk_inv_def empty_satObs_def)
  from msm_cells_inv [OF cells this]
  obtain new where n: "w_list w = lst @ new" "\<forall>ob \<in> set new. banded ob"
    and o: "\<forall>f \<in> set (obs (w_obs w)). length (rnxType2ch f) = 2"
    by (auto simp: walk_inv_def)
  show ?thesis
  proof (cases "obs (w_obs w) = []")
    case True
    with n l show ?thesis by auto
  next
    case False
    with o have "banded (w_obs w)" by (simp add: banded_def)
    with n l False show ?thesis
      by (intro exI [of _ "new @ [w_obs w]"]) simp
  qed
qed

lemma msm_body_append:
  assumes "msm_body env ty sys t r lst tbl = Inr (lst', tbl')"
  shows "\<exists>new. lst' = lst @ new \<and> (\<forall>ob \<in> set new. banded ob)"
  using assms unfolding msm_body_def Let_def
  by - ((erule bindE_InrE, clarsimp)+, erule msm_tail_append)

lemma held_obs_staged:
  assumes "epoch_begin t st = (dec, st1)"
    and "held_obs st2 = held_obs st1 \<union> set new"
    and "\<forall>ob \<in> set new. banded ob"
    and "epoch_end syncf dec st2 = (d, st')"
  shows "\<forall>ob \<in> held_obs st' - held_obs st. banded ob"
  using held_obs_epoch_begin [OF assms(1)] held_obs_epoch_end [OF assms(4)] assms(2,3)
  by auto

lemma held_obs_CurrentObsList:
  "held_obs (st\<lparr>CurrentObsList := CurrentObsList st @ new\<rparr>) = held_obs st \<union> set new"
  "held_obs (st\<lparr>CurrentObsList := CurrentObsList st @ new, GLOFreq := tbl\<rparr>)
     = held_obs st \<union> set new"
  "held_obs (st\<lparr>emitted := e\<rparr>) = held_obs st"
  by (auto simp: held_obs_def)

lemma GPS_InrE:
  fixes data sz env st
  defines "p \<equiv> payload_reader data sz"
  defines "t \<equiv> time_set env (bits_to_nat (take 30 (drop 24 p)))"
  assumes "DecodeRTCM3GPS env data sz st = Inr res"
  obtains lst r' where
    "DecodeRTCM3GPS_sats env (bits_to_nat (take 12 p)) t (bits_to_nat (take 5 (drop 55 p)))
       (drop 64 p) (CurrentObsList (snd (epoch_begin t st))) = Inr (lst, r')"
    "res = epoch_end (bits_to_nat (take 1 (drop 54 p))) (fst (epoch_begin t st))
             (snd (epoch_begin t st)\<lparr>CurrentObsList := lst\<rparr>)"
  using assms(3) unfolding DecodeRTCM3GPS_def p_def t_def
  by - ((erule bindE_InrE,
        (clarsimp simp: Let_def case_prod_beta GETBITS_Inr_iff SKIPBITS_Inr_iff)?)+)

lemma GLONASS_InrE:
  fixes data sz env st
  defines "p \<equiv> payload_reader data sz"
  defines "t \<equiv> time_setTk env (bits_to_nat (take 27 (drop 24 p)))"
  assumes "DecodeRTCM3GLONASS env data sz st = Inr res"
  obtains lst tbl r' where
    "DecodeRTCM3GLONASS_sats env (bits_to_nat (take 12 p)) t (bits_to_nat (take 5 (drop 52 p)))
       (drop 61 p) (CurrentObsList (snd (epoch_begin t st))) (GLOFreq (snd (epoch_begin t st)))
       = Inr ((lst, tbl), r')"
    "res = epoch_end (bits_to_nat (take 1 (drop 51 p))) (fst (epoch_begin t st))
             (snd (epoch_begin t st)\<lparr>CurrentObsList := lst, GLOFreq := tbl\<rparr>)"
  using assms(3) unfolding DecodeRTCM3GLONASS_def p_def t_def
  by - ((erule bindE_InrE,
        (clarsimp simp: Let_def case_prod_beta GETBITS_Inr_iff SKIPBITS_Inr_iff)?)+)

lemma msm_frameE:
  assumes "bindE m (\<lambda>(t, r). let (decoded, st1) = E t in
             bindE (GETBITS 1 r) (\<lambda>(syncf, r).
             bindE (X t r st1) (\<lambda>st2. Inr (F syncf decoded st2)))) = Inr res"
  obtains t r st2 where "m = Inr (t, r)" "X t (drop 1 r) (snd (E t)) = Inr st2"
    "res = F (bits_to_nat (take 1 r)) (fst (E t)) st2"
  using assms by (auto simp: bindE_eq_Inr GETBITS_Inr_iff Let_def case_prod_beta)

lemma MSM_InrE:
  fixes data sz env st
  defines "p \<equiv> payload_reader data sz"
  defines "ty \<equiv> bits_to_nat (take 12 p)"
  assumes "DecodeRTCM3MSM env data sz st = Inr res"
  obtains (unclassified) "msm_sys ty = None" "res = (False, st)"
  | (classified) sys t r st2 where "msm_sys ty = Some sys"
      "msm_time env sys (drop 24 p) = Inr (t, r)"
      "(if ty \<le> 1137 \<and> ty mod 10 \<ge> 4 \<and> ty mod 10 \<le> 7
        then bindE (msm_body env ty sys t (drop 1 r) (CurrentObsList (snd (epoch_begin t st)))
                      (GLOFreq (snd (epoch_begin t st))))
               (\<lambda>(lst, tbl). Inr (snd (epoch_begin t st)\<lparr>CurrentObsList := lst, GLOFreq := tbl\<rparr>))
        else if ty mod 10 < 4
        then Inr (snd (epoch_begin t st)
                    \<lparr>emitted := emitted (snd (epoch_begin t st)) @ [newMessage ty]\<rparr>)
        else Inr (snd (epoch_begin t st))) = (Inr st2 :: error + decoder)"
      "res = epoch_end (bits_to_nat (take 1 r)) (fst (epoch_begin t st)) st2"
proof (cases "msm_sys ty")
  case None
  with assms(3) have "res = (False, st)"
    unfolding DecodeRTCM3MSM_def ty_def p_def
    by (auto simp: bindE_eq_Inr GETBITS_Inr_iff SKIPBITS_Inr_iff)
  with None show ?thesis by (rule unclassified)
next
  case (Some sys)
  note u = DecodeRTCM3MSM_unfold [OF refl Some [unfolded ty_def p_def] assms(3)]
  show ?thesis
    by (rule msm_frameE [OF u]) (rule classified [OF Some], unfold ty_def p_def, assumption+)
qed

lemma GPS_staged:
  assumes "DecodeRTCM3GPS env data sz st = Inr (d, st')"
  shows "\<forall>ob \<in> held_obs st' - held_obs st. banded ob"
proof -
  from assms obtain t syncf ty n r lst r' where
    s: "DecodeRTCM3GPS_sats env ty t n r (CurrentObsList (snd (epoch_begin t st))) = Inr (lst, r')"
    and e: "(d, st') = epoch_end syncf (fst (epoch_begin t st))
                         (snd (epoch_begin t st)\<lparr>CurrentObsList := lst\<rparr>)"
    by (rule GPS_InrE)
  from GPS_sats_append [OF s] obtain new
    where n: "lst = CurrentObsList (snd (epoch_begin t st)) @ new" "\<forall>ob \<in> set new. banded ob"
    by blast
  have b: "epoch_begin t st = (fst (epoch_begin t st), snd (epoch_begin t st))" by simp
  show ?thesis
    by (rule held_obs_staged [OF b _ n(2) e [symmetric]])
      (simp add: n(1) held_obs_CurrentObsList)
qed

lemma GLONASS_staged:
  assumes "DecodeRTCM3GLONASS env data sz st = Inr (d, st')"
  shows "\<forall>ob \<in> held_obs st' - held_obs st. banded ob"
proof -
  from assms obtain t syncf ty n r lst tbl r' where
    s: "DecodeRTCM3GLONASS_sats env ty t n r (CurrentObsList (snd (epoch_begin t st)))
          (GLOFreq (snd (epoch_begin t st))) = Inr ((lst, tbl), r')"
    and e: "(d, st') = epoch_end syncf (fst (epoch_begin t st))
                         (snd (epoch_begin t st)\<lparr>CurrentObsList := lst, GLOFreq := tbl\<rparr>)"
    by (rule GLONASS_InrE)
  from GLONASS_sats_append [OF s] obtain new
    where n: "lst = CurrentObsList (snd (epoch_begin t st)) @ new" "\<forall>ob \<in> set new. banded ob"
    by blast
  have b: "epoch_begin t st = (fst (epoch_begin t st), snd (epoch_begin t st))" by simp
  show ?thesis
    by (rule held_obs_staged [OF b _ n(2) e [symmetric]])
      (simp add: n(1) held_obs_CurrentObsList)
qed

lemma MSM_staged:
  assumes "DecodeRTCM3MSM env data sz st = Inr (d, st')"
  shows "\<forall>ob \<in> held_obs st' - held_obs st. banded ob"
  using assms
proof (cases rule: MSM_InrE)
  case unclassified
  then show ?thesis by simp
next
  case (classified sys t r st2)
  let ?st1 = "snd (epoch_begin t st)"
  have b: "epoch_begin t st = (fst (epoch_begin t st), ?st1)" by simp
  have "\<exists>new. held_obs st2 = held_obs ?st1 \<union> set new \<and> (\<forall>ob \<in> set new. banded ob)"
  proof (cases "bits_to_nat (take 12 (payload_reader data sz)) \<le> 1137
      \<and> bits_to_nat (take 12 (payload_reader data sz)) mod 10 \<ge> 4
      \<and> bits_to_nat (take 12 (payload_reader data sz)) mod 10 \<le> 7")
    case True
    with classified(3) obtain lst tbl where
      m: "msm_body env (bits_to_nat (take 12 (payload_reader data sz))) sys t (drop 1 r)
            (CurrentObsList ?st1) (GLOFreq ?st1) = Inr (lst, tbl)"
      and s2: "st2 = ?st1\<lparr>CurrentObsList := lst, GLOFreq := tbl\<rparr>"
      by (auto simp: bindE_eq_Inr)
    from msm_body_append [OF m] obtain new
      where n: "lst = CurrentObsList ?st1 @ new" "\<forall>ob \<in> set new. banded ob"
      by blast
    then show ?thesis
      unfolding s2 by (intro exI [of _ new]) (simp add: held_obs_CurrentObsList)
  next
    case False
    with classified(3) have "held_obs st2 = held_obs ?st1"
      by (auto simp: held_obs_CurrentObsList split: if_splits)
    then show ?thesis by (intro exI [of _ "[]"]) simp
  qed
  then obtain new where n: "held_obs st2 = held_obs ?st1 \<union> set new"
    "\<forall>ob \<in> set new. banded ob"
    by blast
  show ?thesis
    by (rule held_obs_staged [OF b n classified(4) [symmetric]])
qed

text \<open>
  Claim C7. Every satellite observation that a frame of the legacy GPS decoder, of the
  legacy GLONASS decoder or of the MSM decoder adds to the staged list or to the flushed
  epoch lists has at least one band, and each of its bands carries a two-character
  observation code.
\<close>

theorem staged_observations_banded:
  assumes "DecodeRTCM3GPS env data sz st = Inr (d, st')
           \<or> DecodeRTCM3GLONASS env data sz st = Inr (d, st')
           \<or> DecodeRTCM3MSM env data sz st = Inr (d, st')"
    and "ob \<in> held_obs st'" "ob \<notin> held_obs st"
  shows "obs ob \<noteq> [] \<and> (\<forall>f \<in> set (obs ob). length (rnxType2ch f) = 2)"
  using assms GPS_staged [of env data sz st d st'] GLONASS_staged [of env data sz st d st']
    MSM_staged [of env data sz st d st']
  unfolding banded_def by blast

theorem staged_observations_banded_witness:
  "map (\<lambda>ob. map rnxType2ch (obs ob))
     (CurrentObsList (snd (projr (DecodeRTCM3GPS env0 f1002 24 st0)))) = [[''1C'']]
   \<and> obs (hd (CurrentObsList (snd (projr (DecodeRTCM3GPS env0 f1002 24 st0))))) \<noteq> []
   \<and> length (rnxType2ch (hd (obs (hd (CurrentObsList
         (snd (projr (DecodeRTCM3GPS env0 f1002 24 st0)))))))) = 2"
proof -
  define ob0 where "ob0 = hd (CurrentObsList (snd (projr (DecodeRTCM3GPS env0 f1002 24 st0))))"
  have ev': "DecodeRTCM3GPS env0 f1002 24 st0
      = Inr (False, st0\<lparr>CurrentTime := Some 1000, CurrentObsList :=
          [\<lparr>prn = \<lparr>system = CHR ''G'', number = 5\<rparr>, time = 1000, type = 1002,
            obs = [\<lparr>rnxType2ch = ''1C'', code = 20000, codeValid = True,
                    phase = 20000 / GPS_WAVELENGTH_L1, phaseValid = True,
                    doppler = 0, dopplerValid = False, snr = 40, snrValid = True,
                    lockTime = 0, lockTimeValid = True, lockTimeIndicator = 0\<rparr>]\<rparr>]\<rparr>)"
    by (simp add: DecodeRTCM3GPS_def f1002_def reader_eval env0_def st0_def epoch_begin_def
        epoch_end_def DecodeRTCM3GPS_sat_def DecodeRTCM3GPS_L1_def Let_def new_frqObs_def)
  have "ob0 \<in> held_obs (snd (projr (DecodeRTCM3GPS env0 f1002 24 st0)))"
    "ob0 \<notin> held_obs st0"
    unfolding ob0_def ev' by (simp_all add: held_obs_def st0_def)
  from staged_observations_banded [OF disjI1 [OF ev'] this [unfolded ev' snd_conv sum.sel]]
  show ?thesis
    unfolding ob0_def ev' by simp
qed

section \<open>Properties: epoch flush and sync flag\<close>

text \<open>The three observation decoders keep the contract on every frame they classify.\<close>

lemma epoch_contract_steps:
  assumes "CurrentObsList st2 = CurrentObsList (snd (epoch_begin t st)) @ new"
    and "obsList st2 = obsList (snd (epoch_begin t st))"
    and "CurrentTime st2 = CurrentTime (snd (epoch_begin t st))"
    and "(d, st') = epoch_end syncf (fst (epoch_begin t st)) st2"
  shows "epoch_contract t syncf new st st'"
  using assms
  by (auto simp: epoch_contract_def epoch_begin_def epoch_end_def Let_def split: if_splits)

lemma GPS_epoch_contract:
  assumes "DecodeRTCM3GPS env data sz st = Inr (d, st')"
  shows "\<exists>new. epoch_contract
            (time_set env (bits_to_nat (take 30 (drop 24 (payload_reader data sz)))))
            (bits_to_nat (take 1 (drop 54 (payload_reader data sz)))) new st st'"
  using assms
proof (cases rule: GPS_InrE)
  case (1 lst r')
  from GPS_sats_append [OF 1(1)] obtain new where
    "lst = CurrentObsList (snd (epoch_begin
        (time_set env (bits_to_nat (take 30 (drop 24 (payload_reader data sz))))) st)) @ new"
    by blast
  then show ?thesis
    by (intro exI [of _ new] epoch_contract_steps [OF _ _ _ 1(2)]) simp_all
qed

lemma GLONASS_epoch_contract:
  assumes "DecodeRTCM3GLONASS env data sz st = Inr (d, st')"
  shows "\<exists>new. epoch_contract
            (time_setTk env (bits_to_nat (take 27 (drop 24 (payload_reader data sz)))))
            (bits_to_nat (take 1 (drop 51 (payload_reader data sz)))) new st st'"
  using assms
proof (cases rule: GLONASS_InrE)
  case (1 lst tbl r')
  from GLONASS_sats_append [OF 1(1)] obtain new where
    "lst = CurrentObsList (snd (epoch_begin
        (time_setTk env (bits_to_nat (take 27 (drop 24 (payload_reader data sz))))) st)) @ new"
    by blast
  then show ?thesis
    by (intro exI [of _ new] epoch_contract_steps [OF _ _ _ 1(2)]) simp_all
qed

lemma MSM_epoch_contract:
  assumes "DecodeRTCM3MSM env data sz st = Inr (d, st')"
    and "msm_sys (bits_to_nat (take 12 (payload_reader data sz))) = Some sys"
  shows "\<exists>t r new. msm_time env sys (drop 24 (payload_reader data sz)) = Inr (t, r)
           \<and> epoch_contract t (bits_to_nat (take 1 r)) new st st'"
  using assms(1)
proof (cases rule: MSM_InrE)
  case unclassified
  with assms(2) show ?thesis by simp
next
  case (classified sys' t r st2)
  let ?st1 = "snd (epoch_begin t st)"
  from classified(1) assms(2) have sys: "sys' = sys" by simp
  have "\<exists>new. CurrentObsList st2 = CurrentObsList ?st1 @ new \<and> obsList st2 = obsList ?st1
          \<and> CurrentTime st2 = CurrentTime ?st1"
  proof (cases "bits_to_nat (take 12 (payload_reader data sz)) \<le> 1137
      \<and> bits_to_nat (take 12 (payload_reader data sz)) mod 10 \<ge> 4
      \<and> bits_to_nat (take 12 (payload_reader data sz)) mod 10 \<le> 7")
    case True
    with classified(3) obtain lst tbl where
      m: "msm_body env (bits_to_nat (take 12 (payload_reader data sz))) sys' t (drop 1 r)
            (CurrentObsList ?st1) (GLOFreq ?st1) = Inr (lst, tbl)"
      and s2: "st2 = ?st1\<lparr>CurrentObsList := lst, GLOFreq := tbl\<rparr>"
      by (auto simp: bindE_eq_Inr)
    from msm_body_append [OF m] obtain new where "lst = CurrentObsList ?st1 @ new"
      by blast
    then show ?thesis
      unfolding s2 by (intro exI [of _ new]) simp
  next
    case False
    with classified(3) show ?thesis
      by (intro exI [of _ "[]"]) (auto split: if_splits)
  qed
  then obtain new where "CurrentObsList st2 = CurrentObsList ?st1 @ new"
    "obsList st2 = obsList ?st1" "CurrentTime st2 = CurrentTime ?st1"
    by blast
  from epoch_contract_steps [OF this classified(4)] classified(2) sys
  show ?thesis by blast
qed

lemma st1002_eval:
  "st1002 = st0\<lparr>CurrentTime := Some 1000, CurrentObsList :=
          [\<lparr>prn = \<lparr>system = CHR ''G'', number = 5\<rparr>, time = 1000, type = 1002,
            obs = [\<lparr>rnxType2ch = ''1C'', code = 20000, codeValid = True,
                    phase = 20000 / GPS_WAVELENGTH_L1, phaseValid = True,
                    doppler = 0, dopplerValid = False, snr = 40, snrValid = True,
                    lockTime = 0, lockTimeValid = True, lockTimeIndicator = 0\<rparr>]\<rparr>]\<rparr>"
  by (simp add: st1002_def DecodeRTCM3GPS_def f1002_def reader_eval env0_def st0_def
      epoch_begin_def epoch_end_def DecodeRTCM3GPS_sat_def DecodeRTCM3GPS_L1_def Let_def
      new_frqObs_def)

text \<open>
  Claim C2 at its failing input. The MSM decoder classifies the SBAS types with
  \<^verbatim>\<open>type >= 1101 && type <= 1007\<close>, which no type satisfies, so an SBAS MSM frame
  leaves through \<^verbatim>\<open>return decoded\<close> before the epoch is looked at. The frame \<open>f1104\<close>
  has a new epoch time and a clear sync flag, and arrives while one observation of the
  epoch 1000 is staged: nothing is flushed and \<^verbatim>\<open>_CurrentTime\<close> stays valid. The GPS
  MSM frame \<open>f1074_over\<close> in the same state flushes twice and invalidates the time.
\<close>

theorem sbas_msm_epoch_contract:
  "bits_to_nat (take 12 (payload_reader f1104 36)) = 1104
   \<and> bits_to_nat (take 30 (drop 24 (payload_reader f1104 36))) = 2000
   \<and> bits_to_nat (take 1 (drop 54 (payload_reader f1104 36))) = 0
   \<and> CurrentTime st1002 = Some 1000
   \<and> length (CurrentObsList st1002) = 1
   \<and> DecodeRTCM3MSM env0 f1104 36 st1002 = Inr (False, st1002)
   \<and> dispatch env0 1104 (st1002\<lparr>Message := f1104, BlockSize := 36\<rparr>)
       = (False, st1002\<lparr>Message := f1104, BlockSize := 36\<rparr>)
   \<and> DecodeRTCM3MSM env0 f1074_over 49 st1002
       = Inr (True, st1002\<lparr>obsList := [CurrentObsList st1002, []], CurrentObsList := [],
                              CurrentTime := None\<rparr>)"
proof -
  have ty: "bits_to_nat (take 12 (payload_reader f1104 36)) = 1104"
    and t: "bits_to_nat (take 30 (drop 24 (payload_reader f1104 36))) = 2000"
    and s: "bits_to_nat (take 1 (drop 54 (payload_reader f1104 36))) = 0"
    by (simp_all add: f1104_def reader_eval)
  have d: "DecodeRTCM3MSM env0 f1104 36 st = Inr (False, st)" for st
    by (simp add: f1104_def DecodeRTCM3MSM_def msm_sys_def reader_eval)
  have c: "CurrentTime st1002 = Some 1000" "length (CurrentObsList st1002) = 1"
    by (simp_all add: st1002_eval)
  have "dispatch env0 1104 (st1002\<lparr>Message := f1104, BlockSize := 36\<rparr>)
       = (False, st1002\<lparr>Message := f1104, BlockSize := 36\<rparr>)"
    by (simp add: dispatch_def run_def Let_def f1104_def DecodeRTCM3MSM_def msm_sys_def reader_eval)
  moreover have "DecodeRTCM3MSM env0 f1074_over 49 st1002
       = Inr (True, st1002\<lparr>obsList := [CurrentObsList st1002, []], CurrentObsList := [],
                              CurrentTime := None\<rparr>)"
    unfolding st1002_eval
    by (simp add: f1074_over_def msm_eval reader_eval env0_def st0_def)
  ultimately show ?thesis using ty t s d c by simp
qed

section \<open>Properties: MSM cell limit\<close>

text \<open>
  Claim C6, as amended. An MSM frame of subtype 4 to 7 whose masks give more than 96
  cells stages nothing, emits nothing and leaves the frequency table alone. Where the
  decoder classifies the type, the frame acts as a frame without observations: only the
  epoch-change flush and the sync-flag flush are applied. Otherwise the decoder returns
  false and changes nothing. No diagnostic is emitted.
\<close>

theorem msm_cell_limit:
  assumes dec: "DecodeRTCM3MSM env data sz st = Inr (decoded, st')"
    and r: "r = payload_reader data sz"
    and sub: "4 \<le> bits_to_nat (take 12 r) mod 10" "bits_to_nat (take 12 r) mod 10 \<le> 7"
    and lim: "RTCM3_MSM_NUMCELLS < popcount (bits_to_nat (take 64 (drop 73 r)))
                                 * popcount (bits_to_nat (take 32 (drop 137 r)))"
  shows "held_obs st' = held_obs st \<and> emitted st' = emitted st \<and> GLOFreq st' = GLOFreq st
    \<and> (case msm_sys (bits_to_nat (take 12 r)) of
          None \<Rightarrow> (decoded, st') = (False, st)
        | Some sys \<Rightarrow>
            (\<exists>t r1. msm_time env sys (drop 24 r) = Inr (t, r1)
               \<and> (decoded, st') = epoch_end (bits_to_nat (take 1 r1)) (fst (epoch_begin t st))
                                     (snd (epoch_begin t st))
               \<and> epoch_contract t (bits_to_nat (take 1 r1)) [] st st'))"
  using dec
proof (cases rule: MSM_InrE)
  case unclassified
  then show ?thesis by (simp add: r)
next
  case (classified sys t r1 st2)
  let ?ty = "bits_to_nat (take 12 r)"
  let ?st1 = "snd (epoch_begin t st)"
  from classified(1) have le: "?ty \<le> 1137"
    by (auto simp: msm_sys_def r split: if_splits)
  from classified(3) le sub obtain lst tbl where
    b: "msm_body env ?ty sys t (drop 1 r1) (CurrentObsList ?st1) (GLOFreq ?st1) = Inr (lst, tbl)"
    and s2: "st2 = ?st1\<lparr>CurrentObsList := lst, GLOFreq := tbl\<rparr>"
    by (auto simp: bindE_eq_Inr r)
  from classified(2) have r1: "r1 = drop 54 r"
    by (auto dest: msm_time_drop simp: r)
  from msm_body_over_limit [OF b] lim r1 have "lst = CurrentObsList ?st1 \<and> tbl = GLOFreq ?st1"
    by simp
  with s2 have st2: "st2 = ?st1" by simp
  note e = classified(4) [unfolded st2]
  have b1: "epoch_begin t st = (fst (epoch_begin t st), ?st1)" by simp
  have c: "epoch_contract t (bits_to_nat (take 1 r1)) [] st st'"
    by (rule epoch_contract_steps [OF _ _ _ e]) simp_all
  from held_obs_epoch_begin [OF b1] held_obs_epoch_end [OF e [symmetric]]
  have "held_obs st' = held_obs st \<and> emitted st' = emitted st \<and> GLOFreq st' = GLOFreq st"
    by simp
  with classified(1,2) e c show ?thesis
    by (auto simp: r)
qed

theorem msm_cell_limit_witness:
  "popcount (bits_to_nat (take 64 (drop 73 (payload_reader f1074_full 97)))) = 4
   \<and> popcount (bits_to_nat (take 32 (drop 137 (payload_reader f1074_full 97)))) = 25
   \<and> bits_to_nat (take 100 (drop 169 (payload_reader f1074_full 97))) \<noteq> 0
   \<and> DecodeRTCM3MSM env0 f1074_full 97 st1002 =
        Inr (True, st1002\<lparr>obsList := [CurrentObsList st1002, []], CurrentObsList := [],
                           CurrentTime := None\<rparr>)
   \<and> held_obs (snd (projr (DecodeRTCM3MSM env0 f1074_full 97 st1002))) = held_obs st1002
   \<and> emitted (snd (projr (DecodeRTCM3MSM env0 f1074_full 97 st1002))) = emitted st1002
   \<and> GLOFreq (snd (projr (DecodeRTCM3MSM env0 f1074_full 97 st1002))) = GLOFreq st1002
   \<and> epoch_contract 5000 0 [] st1002 (snd (projr (DecodeRTCM3MSM env0 f1074_full 97 st1002)))"
proof -
  have ev: "DecodeRTCM3MSM env0 f1074_full 97 st1002 =
        Inr (True, st1002\<lparr>obsList := [CurrentObsList st1002, []], CurrentObsList := [],
                           CurrentTime := None\<rparr>)"
    unfolding st1002_eval
    by (simp add: f1074_full_def msm_eval reader_eval env0_def st0_def)
  have p: "popcount (bits_to_nat (take 64 (drop 73 (payload_reader f1074_full 97)))) = 4"
    "popcount (bits_to_nat (take 32 (drop 137 (payload_reader f1074_full 97)))) = 25"
    "bits_to_nat (take 12 (payload_reader f1074_full 97)) = 1074"
    "bits_to_nat (take 100 (drop 169 (payload_reader f1074_full 97))) \<noteq> 0"
    "bits_to_nat (take 1 (drop 54 (payload_reader f1074_full 97))) = 0"
    "bits_to_nat (take 30 (drop 24 (payload_reader f1074_full 97))) = 5000"
    by (simp_all add: f1074_full_def reader_eval popcount.simps)
  have t: "msm_time env0 (CHR ''G'') (drop 24 (payload_reader f1074_full 97))
             = Inr (5000, drop 54 (payload_reader f1074_full 97))"
    by (simp add: f1074_full_def msm_time_def reader_eval env0_def)
  let ?st' = "st1002\<lparr>obsList := [CurrentObsList st1002, []], CurrentObsList := [],
                      CurrentTime := None\<rparr>"
  from msm_cell_limit [OF ev refl] p t
  have "held_obs ?st' = held_obs st1002 \<and> emitted ?st' = emitted st1002
        \<and> GLOFreq ?st' = GLOFreq st1002 \<and> epoch_contract 5000 0 [] st1002 ?st'"
    by (auto simp: RTCM3_MSM_NUMCELLS_def msm_sys_def)
  with p ev show ?thesis by simp
qed

text \<open>
  The claim as stated fails in its last part: the frame of 100 cells, eight of them
  present, is dropped without any signal, so no diagnostic is produced.
\<close>

theorem msm_cell_limit_counterexample:
  "popcount (bits_to_nat (take 64 (drop 73 (payload_reader f1074_full 97))))
     * popcount (bits_to_nat (take 32 (drop 137 (payload_reader f1074_full 97)))) = 100
   \<and> emitted (snd (projr (DecodeRTCM3MSM env0 f1074_full 97 st0))) = []"
proof -
  have ev: "DecodeRTCM3MSM env0 f1074_full 97 st0 = Inr (True, st0\<lparr>obsList := [[]]\<rparr>)"
    by (simp add: f1074_full_def msm_eval reader_eval env0_def st0_def)
  have p: "popcount (bits_to_nat (take 64 (drop 73 (payload_reader f1074_full 97)))) = 4"
    "popcount (bits_to_nat (take 32 (drop 137 (payload_reader f1074_full 97)))) = 25"
    by (simp_all add: f1074_full_def reader_eval popcount.simps)
  show ?thesis
    unfolding ev p by (simp add: st0_def)
qed

section \<open>Properties: GLONASS wavelength in MSM\<close>


















lemma legacy_glonass_slot:
  assumes "DecodeRTCM3GLONASS_sat env ty t tbl r = Inr ((ob, tbl'), r')" and "length tbl = 64"
  shows "tbl' ! (nat (number (prn ob)) - 1) = 100 + int (bits_to_nat (take 5 (drop 7 r))) - 7"
proof -
  from assms(1) obtain sv tbl1 where sv: "sv = bits_to_nat (take 6 r)"
    and st: "GLOFreq_store (int sv - 1) (100 + int (bits_to_nat (take 5 (drop 7 r))) - 7) tbl
               = Inr tbl1"
    and res: "number (prn ob) = int sv \<and> tbl' = tbl1"
    unfolding DecodeRTCM3GLONASS_sat_def Let_def
    by (auto simp: bindE_eq_Inr GETBITS_Inr_iff split: if_splits)
  from st have "0 \<le> int sv - 1" "int sv - 1 < 64"
    and t1: "tbl1 = tbl[nat (int sv - 1) := 100 + int (bits_to_nat (take 5 (drop 7 r))) - 7]"
    by (auto simp: GLOFreq_store_def RTCM3_MSM_NUMSAT_def split: if_splits)
  then have "nat (int sv - 1) < length tbl" "nat (int sv) - 1 = nat (int sv - 1)"
    using assms(2) by simp_all
  with res t1 show ?thesis by simp
qed







end
